theory Spec2Isabelle
  imports Main "HOL-Library.Word"
begin

section \<open>The CLI backend of the AI provider (internal/ai/provider_claude_cli.go)\<close>

text \<open>
  Go strings are byte sequences, and so is \<^typ>\<open>string\<close> (a \<^typ>\<open>char\<close> is one byte).
  Go's \<open>int\<close> is a 64-bit two's complement integer on 64-bit platforms; \<open>+\<close> on it wraps
  around, as \<open>+\<close> on \<^typ>\<open>64 word\<close> does, and \<^term>\<open>sint\<close> reads the signed value.
\<close>

type_synonym goint = "64 word"

text \<open>The anonymous \<open>Usage\<close> struct of \<open>ClaudeCLIResponse\<close>, its fields named by their JSON tags.\<close>

record CLIUsage =
  input_tokens :: goint
  output_tokens :: goint
  cache_read_input_tokens :: goint
  cache_creation_input_tokens :: goint

text \<open>
  \<open>ClaudeCLIResponse\<close>. The field \<open>TotalCostUSD\<close> (a float64 that no function reads) is
  left out.
\<close>

record ClaudeCLIResponse =
  Type :: string
  SessionID :: string
  Result :: string
  IsError :: bool
  Usage :: CLIUsage

record InvokeParams =
  Operation :: string
  Prompt :: string
  MaxTokens :: goint
  Model :: string

record InvokeResult =
  Text :: string
  InputTokens :: goint
  OutputTokens :: goint

record ClaudeCLIProvider =
  claudePath :: string
  model :: string

text \<open>
  The errors \<open>Invoke\<close> builds with \<open>fmt.Errorf\<close>, one constructor per message, each
  carrying what the message is formatted from.
\<close>

datatype error =
    CLIFailed string string           \<comment> \<open>claude CLI failed: err (output: ...)\<close>
  | ParseFailed string string         \<comment> \<open>failed to parse CLI response: err (output: ...)\<close>
  | NoResultObject                    \<comment> \<open>no result object found in CLI response\<close>
  | CLIReturnedError string           \<comment> \<open>claude CLI returned error: result\<close>
  | HomeDirFailed string              \<comment> \<open>failed to get home directory: err\<close>
  | SummarizationFailed error         \<comment> \<open>AI summarization failed: err\<close>
  | AICallFailed error                \<comment> \<open>AI call failed: err\<close>
  | ProviderError string              \<comment> \<open>an error of another provider or of the retry layer\<close>

text \<open>\<open>strings.Contains\<close>: some suffix of \<open>s\<close> starts with \<open>substr\<close>.\<close>

fun Contains :: "string \<Rightarrow> string \<Rightarrow> bool" where
  "Contains [] substr = (substr = [])"
| "Contains (c # s) substr = (take (length substr) (c # s) = substr \<or> Contains s substr)"

text \<open>\<open>getModelForCLI\<close>: the cases of the switch in their order.\<close>

definition getModelForCLI :: "string \<Rightarrow> string" where
  "getModelForCLI supervisorModel =
     (if Contains supervisorModel ''sonnet'' then ''sonnet''
      else if Contains supervisorModel ''haiku'' then ''haiku''
      else if Contains supervisorModel ''opus'' then ''opus''
      else ''sonnet'')"

text \<open>
  The loop \<open>for i := range responses\<close> of \<open>Invoke\<close> and of \<open>invokeClaudeCLI\<close>: it stops
  (\<open>break\<close>) at the first element whose \<open>Type\<close> is \<open>"result"\<close>; \<open>None\<close> is the nil pointer
  the loop leaves when there is none.
\<close>

fun find_result :: "ClaudeCLIResponse list \<Rightarrow> ClaudeCLIResponse option" where
  "find_result [] = None"
| "find_result (r # rs) = (if Type r = ''result'' then Some r else find_result rs)"

text \<open>What both functions do with the parsed array: the part after \<open>json.Unmarshal\<close>.\<close>

definition result_of_responses :: "ClaudeCLIResponse list \<Rightarrow> error + InvokeResult" where
  "result_of_responses responses =
     (case find_result responses of
        None \<Rightarrow> Inl NoResultObject
      | Some result \<Rightarrow>
          if IsError result then Inl (CLIReturnedError (Result result))
          else
            let inputTokens = input_tokens (Usage result) +
                              cache_read_input_tokens (Usage result) +
                              cache_creation_input_tokens (Usage result)
            in Inr \<lparr>Text = Result result,
                    InputTokens = inputTokens,
                    OutputTokens = output_tokens (Usage result)\<rparr>)"

text \<open>The argument vector \<open>Invoke\<close> builds, the model chosen as its first lines do.\<close>

definition Invoke_model :: "ClaudeCLIProvider \<Rightarrow> InvokeParams \<Rightarrow> string" where
  "Invoke_model p params =
     (if Model params = [] then model p else getModelForCLI (Model params))"

definition cli_args :: "string \<Rightarrow> string \<Rightarrow> string list" where
  "cli_args mdl prompt =
     [''--print'', ''--output-format'', ''json'', ''--dangerously-skip-permissions'']
     @ (if mdl \<noteq> [] then [''--model'', mdl] else [])
     @ [prompt]"

text \<open>
  The two things \<open>Invoke\<close> takes from outside the program are parameters:
  \<^item> \<open>run path args\<close> is \<open>exec.CommandContext(ctx, path, args...).CombinedOutput()\<close>: the
    combined output, and the error message when the process failed;
  \<^item> \<open>unmarshal output\<close> is \<open>json.Unmarshal(output, &responses)\<close>: the decoded array
    (\<open>Inr\<close>) or the decoder's error message (\<open>Inl\<close>).
\<close>

type_synonym runner = "string \<Rightarrow> string list \<Rightarrow> string \<times> string option"
type_synonym decoder = "string \<Rightarrow> string + ClaudeCLIResponse list"

definition Invoke ::
  "ClaudeCLIProvider \<Rightarrow> runner \<Rightarrow> decoder \<Rightarrow> InvokeParams \<Rightarrow> error + InvokeResult" where
  "Invoke p run unmarshal params =
     (case run (claudePath p) (cli_args (Invoke_model p params) (Prompt params)) of
        (output, Some err) \<Rightarrow> Inl (CLIFailed err output)
      | (output, None) \<Rightarrow>
          (case unmarshal output of
             Inl err \<Rightarrow> Inl (ParseFailed err output)
           | Inr responses \<Rightarrow> result_of_responses responses))"

text \<open>
  \<open>filepath.Join\<close> of Go's standard library, on a system whose separator is the slash. It
  joins the elements from the first non-empty one on with separators and cleans the
  result (\<open>filepath.Clean\<close>): runs of separators count as one, \<open>.\<close> elements go, a \<open>..\<close>
  element goes together with the element before it (at the root it just goes, and at
  the start of a relative path it stays), there is no trailing separator, and the empty
  path becomes \<open>.\<close>.
\<close>

fun path_elements :: "string \<Rightarrow> string \<Rightarrow> string list" where
  "path_elements cur [] = [cur]"
| "path_elements cur (c # s) =
     (if c = CHR ''/'' then cur # path_elements [] s else path_elements (cur @ [c]) s)"

fun clean_elements :: "bool \<Rightarrow> string list \<Rightarrow> string list \<Rightarrow> string list" where
  "clean_elements rooted out [] = out"
| "clean_elements rooted out (e # es) =
     (if e = [] \<or> e = ''.'' then clean_elements rooted out es
      else if e = ''..'' then
        (if out \<noteq> [] \<and> last out \<noteq> ''..'' then clean_elements rooted (butlast out) es
         else if rooted then clean_elements rooted out es
         else clean_elements rooted (out @ [''..'']) es)
      else clean_elements rooted (out @ [e]) es)"

fun join_elements :: "string list \<Rightarrow> string" where
  "join_elements [] = []"
| "join_elements [e] = e"
| "join_elements (e # es) = e @ ''/'' @ join_elements es"

definition filepath_Clean :: "string \<Rightarrow> string" where
  "filepath_Clean path =
     (let rooted = (take 1 path = ''/'');
          cleaned = (if rooted then ''/'' else [])
                    @ join_elements (clean_elements rooted [] (path_elements [] path))
      in if cleaned = [] then ''.'' else cleaned)"

definition filepath_Join :: "string list \<Rightarrow> string" where
  "filepath_Join elem =
     (case dropWhile (\<lambda>e. e = []) elem of
        [] \<Rightarrow> []
      | es \<Rightarrow> filepath_Clean (join_elements es))"

text \<open>
  \<open>Supervisor.invokeClaudeCLI\<close>, the older sibling of \<open>Invoke\<close>: the path comes from
  \<open>VC_CLAUDE_PATH\<close>, else from the home directory (\<open>home\<close>: the directory or the
  error of \<open>os.UserHomeDir\<close>); it returns text and the two counts.
\<close>

definition default_claude_path :: "string \<Rightarrow> string" where
  "default_claude_path home = filepath_Join [home, ''.claude'', ''local'', ''claude'']"

text \<open>
  The path of the binary: \<open>VC_CLAUDE_PATH\<close> when it is not empty, else the standard
  location under the home directory; \<open>os.UserHomeDir\<close> may fail.
\<close>

definition resolve_claude_path :: "string \<Rightarrow> (string + string) \<Rightarrow> error + string" where
  "resolve_claude_path env_path home =
     (if env_path = [] then
        (case home of Inl err \<Rightarrow> Inl (HomeDirFailed err) | Inr h \<Rightarrow> Inr (default_claude_path h))
      else Inr env_path)"

definition invokeClaudeCLI ::
  "string \<Rightarrow> (string + string) \<Rightarrow> runner \<Rightarrow> decoder \<Rightarrow> string \<Rightarrow> string
     \<Rightarrow> error + (string \<times> goint \<times> goint)" where
  "invokeClaudeCLI env_path home run unmarshal prompt mdl =
     (case resolve_claude_path env_path home of
        Inl e \<Rightarrow> Inl e
      | Inr path \<Rightarrow>
          (case run path (cli_args mdl prompt) of
             (output, Some err) \<Rightarrow> Inl (CLIFailed err output)
           | (output, None) \<Rightarrow>
               (case unmarshal output of
                  Inl err \<Rightarrow> Inl (ParseFailed err output)
                | Inr responses \<Rightarrow>
                    (case result_of_responses responses of
                       Inl e \<Rightarrow> Inl e
                     | Inr r \<Rightarrow> Inr (Text r, InputTokens r, OutputTokens r)))))"

text \<open>
  The reading of the specification's "terminal object of type result": the last element
  of the array whose \<open>Type\<close> is \<open>"result"\<close>. It is not what the loop computes; it is
  here to be compared with \<^const>\<open>find_result\<close>.
\<close>

definition last_result :: "ClaudeCLIResponse list \<Rightarrow> ClaudeCLIResponse option" where
  "last_result responses = find_result (rev responses)"

subsection \<open>Sample inputs\<close>

text \<open>
  A provider, a prompt and outputs of the binary, already decoded: the array of the
  integration notes (system, assistant, result), an array with two result objects of
  which the first is a success and the last an error, and one with the error first. The
  binary runs without an error; the decoder gives the array it is told to, or fails.
\<close>

definition sample_provider :: ClaudeCLIProvider where
  "sample_provider = \<lparr>claudePath = ''/home/u/.claude/local/claude'', model = ''sonnet''\<rparr>"

definition sample_params :: InvokeParams where
  "sample_params = \<lparr>Operation = ''test'', Prompt = ''What is 2+2?'', MaxTokens = 100, Model = ''''\<rparr>"

definition no_usage :: CLIUsage where
  "no_usage = \<lparr>input_tokens = 0, output_tokens = 0, cache_read_input_tokens = 0,
                cache_creation_input_tokens = 0\<rparr>"

definition system_object :: ClaudeCLIResponse where
  "system_object = \<lparr>Type = ''system'', SessionID = ''s1'', Result = '''', IsError = False,
                     Usage = no_usage\<rparr>"

definition assistant_object :: ClaudeCLIResponse where
  "assistant_object = \<lparr>Type = ''assistant'', SessionID = ''s1'', Result = '''', IsError = False,
                        Usage = no_usage\<rparr>"

definition success_object :: ClaudeCLIResponse where
  "success_object = \<lparr>Type = ''result'', SessionID = ''s1'', Result = ''4'', IsError = False,
       Usage = \<lparr>input_tokens = 3, output_tokens = 5, cache_read_input_tokens = 10,
                cache_creation_input_tokens = 20\<rparr>\<rparr>"

definition error_object :: ClaudeCLIResponse where
  "error_object = \<lparr>Type = ''result'', SessionID = ''s1'', Result = ''overloaded'', IsError = True,
                    Usage = no_usage\<rparr>"

definition sample_responses :: "ClaudeCLIResponse list" where
  "sample_responses = [system_object, assistant_object, success_object]"

definition two_results :: "ClaudeCLIResponse list" where
  "two_results = [system_object, success_object, error_object]"

definition error_first :: "ClaudeCLIResponse list" where
  "error_first = [system_object, error_object, success_object]"

definition sample_run :: runner where
  "sample_run path args = (''[...]'', None)"

definition decode_as :: "ClaudeCLIResponse list \<Rightarrow> decoder" where
  "decode_as responses output = Inr responses"

definition decode_fails :: decoder where
  "decode_fails output = Inl ''unexpected end of JSON input''"

section \<open>Supervisor utilities (internal/ai/utils.go)\<close>

text \<open>The fields of \<open>types.Issue\<close> that the functions of this file read.\<close>

record Issue =
  ID :: string
  Title :: string
  Description :: string

text \<open>
  What the Supervisor's operations act on, as explicit state: the calls the provider has
  received so far, in order, and the store (the issues it holds and the comments added
  to them, each with its issue, its actor and its content).
\<close>

record usage_comment =
  activity :: string
  inputTokens :: goint
  outputTokens :: goint

record world =
  provider_calls :: "InvokeParams list"
  store_issues :: "string list"
  store_comments :: "(string \<times> string \<times> usage_comment) list"

text \<open>
  An \<open>AIProvider\<close>: its answer to a call, given the calls it has received before (the CLI
  backend above, the API backend, or a test double that counts its calls).
\<close>

type_synonym AIProvider = "InvokeParams list \<Rightarrow> InvokeParams \<Rightarrow> error + InvokeResult"

text \<open>One attempt: what an operation or the retry layer runs, on the state.\<close>

type_synonym attempt = "world \<Rightarrow> (error + InvokeResult) \<times> world"

text \<open>
  The Supervisor. Its \<open>retryWithBackoff\<close> is defined in retry.go, which is not among the
  sources, so it is a field here: given the operation's label and the attempt, it returns
  the error it ends with, or the result the last attempt stored when it ends with nil.
\<close>

record Supervisor =
  provider :: AIProvider
  retryWithBackoff :: "string \<Rightarrow> attempt \<Rightarrow> attempt"

text \<open>\<open>s.provider.Invoke(attemptCtx, params)\<close>: the provider answers, and the call is recorded.\<close>

definition provider_Invoke :: "Supervisor \<Rightarrow> InvokeParams \<Rightarrow> attempt" where
  "provider_Invoke s params w =
     (provider s (provider_calls w) params,
      w\<lparr>provider_calls := provider_calls w @ [params]\<rparr>)"

text \<open>
  \<open>logAIUsage\<close>: nothing when the store does not hold the issue (or \<open>GetIssue\<close> fails),
  else one comment by \<open>ai-supervisor\<close>. The comment is kept as the values it is formatted
  from; the duration is not modelled, nor is a failure of \<open>AddComment\<close>, which
  \<open>SummarizeAgentOutput\<close> only prints as a warning.
\<close>

definition logAIUsage :: "string \<Rightarrow> string \<Rightarrow> goint \<Rightarrow> goint \<Rightarrow> world \<Rightarrow> world" where
  "logAIUsage issueID act inTok outTok w =
     (if issueID \<notin> set (store_issues w) then w
      else w\<lparr>store_comments := store_comments w @
             [(issueID, ''ai-supervisor'',
               \<lparr>activity = act, inputTokens = inTok, outputTokens = outTok\<rparr>)]\<rparr>)"

text \<open>\<open>CallAI\<close>: the default for \<open>maxTokens\<close>, the call through the retry layer, the text.\<close>

definition CallAI ::
  "Supervisor \<Rightarrow> string \<Rightarrow> string \<Rightarrow> string \<Rightarrow> goint \<Rightarrow> world \<Rightarrow> (error + string) \<times> world" where
  "CallAI s prompt operation mdl maxTokens w =
     (let maxTokens' = (if maxTokens = 0 then 4096 else maxTokens) in
      case retryWithBackoff s operation
             (provider_Invoke s \<lparr>Operation = operation, Prompt = prompt,
                                 MaxTokens = maxTokens', Model = mdl\<rparr>) w of
        (Inl err, w') \<Rightarrow> (Inl (AICallFailed err), w')
      | (Inr result, w') \<Rightarrow> (Inr (Text result), w'))"

text \<open>\<open>%d\<close> of \<open>fmt.Sprintf\<close>: an integer in decimal.\<close>

definition digit_char :: "nat \<Rightarrow> char" where
  "digit_char d = char_of (48 + d)"

function decimal :: "nat \<Rightarrow> string" where
  "decimal n = (if n < 10 then [digit_char n] else decimal (n div 10) @ [digit_char (n mod 10)])"
  by pat_completeness auto
termination
  by (relation "measure id") auto

declare decimal.simps [simp del]

definition format_d :: "int \<Rightarrow> string" where
  "format_d i = (if i < 0 then ''-'' @ decimal (nat (- i)) else decimal (nat i))"

text \<open>
  \<open>buildSummarizationPrompt\<close>: an output of more than 50000 bytes is sampled (its first
  20000 and its last 30000 bytes), then the template is filled in.
\<close>

definition maxPromptOutput :: nat where
  "maxPromptOutput = 50000"

definition truncated_marker :: string where
  "truncated_marker = ''\<newline>\<newline>... [truncated middle section] ...\<newline>\<newline>''"

definition truncationNote_text :: string where
  "truncationNote_text = ''\<newline>\<newline>Note: The full output was very large and has been sampled. Focus on extracting the most important information from what's provided.''"

definition buildSummarizationPrompt :: "Issue \<Rightarrow> string \<Rightarrow> int \<Rightarrow> string" where
  "buildSummarizationPrompt issue fullOutput maxLength =
     (let wasTruncated = (length fullOutput > maxPromptOutput);
          outputToAnalyze =
            (if wasTruncated
             then take 20000 fullOutput @ truncated_marker
                  @ drop (length fullOutput - 30000) fullOutput
             else fullOutput);
          truncationNote = (if wasTruncated then truncationNote_text else [])
      in ''You are summarizing the output from a coding agent that just worked on an issue. Extract the key information into a concise summary.\<newline>\<newline>Issue Context:\<newline>Issue ID: ''
         @ ID issue @ ''\<newline>Title: '' @ Title issue @ ''\<newline>Description: '' @ Description issue
         @ ''\<newline>\<newline>Agent Output (may be truncated):\<newline>'' @ outputToAnalyze @ truncationNote
         @ ''\<newline>\<newline>Please provide a concise summary (max '' @ format_d maxLength
         @ '' characters) that captures:\<newline>1. What was actually done/accomplished\<newline>2. Key decisions or changes made\<newline>3. Important warnings, errors, or issues encountered\<newline>4. Test results (if any)\<newline>5. Next steps mentioned (if any)\<newline>\<newline>Format the summary as plain text, suitable for adding as a comment. Be specific about concrete actions taken, not just \"the agent worked on X\". Include actual file names, test names, command outputs, etc.\<newline>\<newline>Focus on information that would be useful to someone reviewing this work later. Skip boilerplate or irrelevant output.'')"

text \<open>
  \<open>SummarizeAgentOutput\<close>. \<open>maxLength\<close> is a Go \<open>int\<close> that is only compared with a
  length, so it is an \<^typ>\<open>int\<close> here. The two early returns come first and in the
  source's order; only after them is the provider called, through the retry layer.
\<close>

definition SummarizeAgentOutput ::
  "Supervisor \<Rightarrow> Issue \<Rightarrow> string \<Rightarrow> int \<Rightarrow> world \<Rightarrow> (error + string) \<times> world" where
  "SummarizeAgentOutput s issue fullOutput maxLength w =
     (if length fullOutput = 0 then (Inr ''Agent completed with no output'', w)
      else if int (length fullOutput) \<le> maxLength then (Inr fullOutput, w)
      else
        let prompt = buildSummarizationPrompt issue fullOutput maxLength in
        case retryWithBackoff s ''summarization''
               (provider_Invoke s \<lparr>Operation = ''summarization'', Prompt = prompt,
                                   MaxTokens = 4096, Model = ''''\<rparr>) w of
          (Inl err, w') \<Rightarrow> (Inl (SummarizationFailed err), w')
        | (Inr result, w') \<Rightarrow>
            (Inr (Text result),
             logAIUsage (ID issue) ''summarization'' (InputTokens result) (OutputTokens result) w'))"

text \<open>
  \<open>utf8.ValidString\<close> of Go's standard library: every byte sequence is one of the
  well-formed UTF-8 sequences. The first byte gives the length and the range of the
  second byte (no overlong forms, no surrogates, nothing above U+10FFFF); the later
  bytes are continuation bytes.
\<close>

definition between :: "nat \<Rightarrow> nat \<Rightarrow> char \<Rightarrow> bool" where
  "between lo hi c = (lo \<le> (of_char c :: nat) \<and> (of_char c :: nat) \<le> hi)"

fun ValidString :: "string \<Rightarrow> bool" where
  "ValidString [] = True"
| "ValidString (c # cs) =
     (let b = (of_char c :: nat) in
      if b < 0x80 then ValidString cs
      else if 0xC2 \<le> b \<and> b \<le> 0xDF then
        (case cs of c1 # r \<Rightarrow> between 0x80 0xBF c1 \<and> ValidString r | _ \<Rightarrow> False)
      else if 0xE0 \<le> b \<and> b \<le> 0xEF then
        (case cs of
           c1 # c2 # r \<Rightarrow>
             between (if b = 0xE0 then 0xA0 else 0x80) (if b = 0xED then 0x9F else 0xBF) c1
             \<and> between 0x80 0xBF c2 \<and> ValidString r
         | _ \<Rightarrow> False)
      else if 0xF0 \<le> b \<and> b \<le> 0xF4 then
        (case cs of
           c1 # c2 # c3 # r \<Rightarrow>
             between (if b = 0xF0 then 0x90 else 0x80) (if b = 0xF4 then 0x8F else 0xBF) c1
             \<and> between 0x80 0xBF c2 \<and> between 0x80 0xBF c3 \<and> ValidString r
         | _ \<Rightarrow> False)
      else False)"

text \<open>
  The loop of \<open>safeTruncateString\<close>:
  \<^verbatim>\<open>for i := 0; i < 4 && len(truncated) > 0; i++\<close>, which returns \<open>truncated\<close> as soon as
  it is valid and drops its last byte otherwise; after the loop the function returns the
  empty string.
\<close>

function truncate_loop :: "nat \<Rightarrow> string \<Rightarrow> string" where
  "truncate_loop i truncated =
     (if i < 4 \<and> length truncated > 0 then
        (if ValidString truncated then truncated
         else truncate_loop (i + 1) (take (length truncated - 1) truncated))
      else [])"
  by pat_completeness auto
termination
  by (relation "measure (\<lambda>(i, truncated). 4 - i)") auto

declare truncate_loop.simps [simp del]

text \<open>
  \<open>safeTruncateString\<close>. \<open>None\<close> is the run-time panic of \<open>s[:maxLen]\<close> when \<open>maxLen\<close> is
  negative (the first test cannot hold then: a length is not negative).
\<close>

definition safeTruncateString :: "string \<Rightarrow> int \<Rightarrow> string option" where
  "safeTruncateString s maxLen =
     (if int (length s) \<le> maxLen then Some s
      else if maxLen < 0 then None
      else Some (truncate_loop 0 (take (nat maxLen) s)))"

subsection \<open>Sample inputs\<close>

text \<open>
  A Supervisor whose retry layer makes the one attempt and whose provider is the CLI
  backend on an output that does not decode; one whose provider answers; an issue; a
  state with no call made yet.
\<close>

definition single_attempt :: "string \<Rightarrow> attempt \<Rightarrow> attempt" where
  "single_attempt operation fn = fn"

definition failing_supervisor :: Supervisor where
  "failing_supervisor =
     \<lparr>provider = (\<lambda>calls. Invoke sample_provider sample_run decode_fails),
      retryWithBackoff = single_attempt\<rparr>"

definition sample_issue :: Issue where
  "sample_issue = \<lparr>ID = ''vc-5'', Title = ''Create hello.txt file'', Description = ''''\<rparr>"

definition start_world :: world where
  "start_world = \<lparr>provider_calls = [], store_issues = [''vc-5''], store_comments = []\<rparr>"

text \<open>The bytes of \<open>a\<close>, the euro sign (three bytes in UTF-8) and \<open>b\<close>.\<close>

definition euro_text :: string where
  "euro_text = [CHR ''a'', CHR 0xE2, CHR 0x82, CHR 0xAC, CHR ''b'']"

section \<open>Agent backends (internal/executor/claude_code_provider.go)\<close>

text \<open>
  The process environment maps a variable to its value, or to nothing when it is unset;
  \<open>os.Getenv\<close> returns the empty string for an unset variable, so it cannot tell an
  unset variable from one set to the empty string.
\<close>

type_synonym environ = "string \<rightharpoonup> string"

definition os_Getenv :: "environ \<Rightarrow> string \<Rightarrow> string" where
  "os_Getenv env key = (case env key of None \<Rightarrow> [] | Some v \<Rightarrow> v)"

text \<open>
  \<open>unicode.IsSpace\<close> on the bytes of a string: the length of the white space character
  that starts the string in UTF-8, or 0 when none does. The characters are the six ASCII
  ones, U+0085, U+00A0, U+1680, U+2000 to U+200A, U+2028, U+2029, U+202F, U+205F and
  U+3000. Their first bytes are never continuation bytes, so Go's decoder, which moves
  on by one byte at an ill-formed sequence, finds each of them exactly where its bytes
  stand.
\<close>

fun space_width :: "string \<Rightarrow> nat" where
  "space_width [] = 0"
| "space_width (c # cs) =
     (let b = (of_char c :: nat) in
      if b = 0x20 \<or> (0x09 \<le> b \<and> b \<le> 0x0D) then 1
      else if b = 0xC2 then
        (case cs of c1 # _ \<Rightarrow> if of_char c1 = (0x85::nat) \<or> of_char c1 = (0xA0::nat) then 2 else 0
                  | _ \<Rightarrow> 0)
      else if b = 0xE1 then
        (case cs of c1 # c2 # _ \<Rightarrow>
                      if of_char c1 = (0x9A::nat) \<and> of_char c2 = (0x80::nat) then 3 else 0
                  | _ \<Rightarrow> 0)
      else if b = 0xE2 then
        (case cs of c1 # c2 # _ \<Rightarrow>
                      if of_char c1 = (0x80::nat) \<and>
                         (between 0x80 0x8A c2 \<or> of_char c2 = (0xA8::nat)
                          \<or> of_char c2 = (0xA9::nat) \<or> of_char c2 = (0xAF::nat)) then 3
                      else if of_char c1 = (0x81::nat) \<and> of_char c2 = (0x9F::nat) then 3
                      else 0
                  | _ \<Rightarrow> 0)
      else if b = 0xE3 then
        (case cs of c1 # c2 # _ \<Rightarrow>
                      if of_char c1 = (0x80::nat) \<and> of_char c2 = (0x80::nat) then 3 else 0
                  | _ \<Rightarrow> 0)
      else 0)"

text \<open>
  \<open>strings.Fields\<close>: the maximal runs of bytes between white space, in order; \<open>cur\<close> is
  the field being read.
\<close>

function Fields_from :: "string \<Rightarrow> string \<Rightarrow> string list" where
  "Fields_from cur [] = (if cur = [] then [] else [cur])"
| "Fields_from cur (c # s) =
     (if space_width (c # s) = 0 then Fields_from (cur @ [c]) s
      else (if cur = [] then [] else [cur]) @ Fields_from [] (drop (space_width (c # s)) (c # s)))"
  by pat_completeness auto
termination
  by (relation "measure (\<lambda>(cur, s). length s)") auto

definition Fields :: "string \<Rightarrow> string list" where
  "Fields s = Fields_from [] s"

text \<open>
  \<open>AgentConfig\<close> is declared in a file that is not among the sources; these are the
  fields its uses here and in the tests show that a string, a flag or a number can hold
  (the timeout in nanoseconds).
\<close>

record AgentConfig =
  WorkingDir :: string
  StreamJSON :: bool
  Timeout :: int

text \<open>
  \<open>exec.CommandContext(ctx, name, args...)\<close>. Of the command only the argument vector
  \<open>Args\<close> is modelled: the name as given, followed by the arguments. (\<open>Path\<close>, which Go
  finds with \<open>LookPath\<close> for a bare name, and the other fields are left out.)
\<close>

record Cmd =
  Args :: "string list"

definition exec_CommandContext :: "string \<Rightarrow> string list \<Rightarrow> Cmd" where
  "exec_CommandContext name args = \<lparr>Args = name # args\<rparr>"

text \<open>
  The first lines of \<open>ClaudeCodeProvider.BuildCommand\<close>: the binary is \<open>VC_CLAUDE_PATH\<close>
  when that is not empty, else the standard location under the home directory, else
  (when \<open>os.UserHomeDir\<close> fails) the bare name \<open>claude\<close>.
\<close>

definition claude_code_path :: "environ \<Rightarrow> (string + string) \<Rightarrow> string" where
  "claude_code_path env home =
     (if os_Getenv env ''VC_CLAUDE_PATH'' = [] then
        (case home of Inl err \<Rightarrow> ''claude'' | Inr h \<Rightarrow> default_claude_path h)
      else os_Getenv env ''VC_CLAUDE_PATH'')"

text \<open>
  \<open>ClaudeCodeProvider.BuildCommand\<close>. \<open>home\<close> is the result of \<open>os.UserHomeDir\<close>. The
  function never returns an error.
\<close>

definition ClaudeCodeProvider_BuildCommand ::
  "environ \<Rightarrow> (string + string) \<Rightarrow> AgentConfig \<Rightarrow> string \<Rightarrow> Cmd" where
  "ClaudeCodeProvider_BuildCommand env home cfg prompt =
     (let claudePath = claude_code_path env home;
          args = [''--print''];
          args = (if StreamJSON cfg then args @ [''--output-format'', ''stream-json''] else args);
          argsEnv = os_Getenv env ''VC_CLAUDE_ARGS'';
          args = (if argsEnv = [] then args @ [''--dangerously-skip-permissions'']
                  else args @ Fields argsEnv);
          args = args @ [prompt]
      in exec_CommandContext claudePath args)"

text \<open>\<open>AmpProvider.BuildCommand\<close>: the prompt follows \<open>--execute\<close>; the stream flag comes after it.\<close>

definition AmpProvider_BuildCommand :: "AgentConfig \<Rightarrow> string \<Rightarrow> Cmd" where
  "AmpProvider_BuildCommand cfg prompt =
     (let args = [];
          args = args @ [''--dangerously-allow-all''];
          args = args @ [''--execute'', prompt];
          args = (if StreamJSON cfg then args @ [''--stream-json''] else args)
      in exec_CommandContext ''amp'' args)"

text \<open>
  For statements about a flag with its value: whether \<open>a\<close> stands in a list with \<open>b\<close>
  right after it.
\<close>

fun has_adjacent :: "'a \<Rightarrow> 'a \<Rightarrow> 'a list \<Rightarrow> bool" where
  "has_adjacent a b (x # y # xs) = ((x = a \<and> y = b) \<or> has_adjacent a b (y # xs))"
| "has_adjacent a b xs = False"

subsection \<open>Sample inputs\<close>

text \<open>
  Configurations with and without streaming, and environments: the custom arguments and
  path of the tests, the example of the integration notes, and arguments that ask for
  the streaming format themselves.
\<close>

definition streaming_cfg :: AgentConfig where
  "streaming_cfg = \<lparr>WorkingDir = ''/tmp/test'', StreamJSON = True, Timeout = 300000000000\<rparr>"

definition plain_cfg :: AgentConfig where
  "plain_cfg = \<lparr>WorkingDir = ''/tmp/test'', StreamJSON = False, Timeout = 300000000000\<rparr>"

definition custom_args_env :: environ where
  "custom_args_env = [''VC_CLAUDE_ARGS'' \<mapsto> ''--model sonnet  --verbose'',
                      ''VC_CLAUDE_PATH'' \<mapsto> ''/custom/path/to/claude'']"

definition doc_args_env :: environ where
  "doc_args_env = [''VC_CLAUDE_ARGS'' \<mapsto> ''--dangerously-skip-permissions --model sonnet'']"

definition format_args_env :: environ where
  "format_args_env = [''VC_CLAUDE_ARGS'' \<mapsto> ''--output-format stream-json'']"

section \<open>The recovery engine's deterministic fallback\<close>

text \<open>
  The recovery engine (internal/gates/gates.go) and the store it writes to are not among
  the sources; only the tests and the notes that use them are. This section models them
  from the spec.
\<close>

text \<open>
  Modelled from the spec: the statuses of an issue (the type is declared in the types
  package, which is missing). The spec names open, blocked and closed; the tests use an
  issue that is in progress.
\<close>

datatype IssueStatus = StatusOpen | StatusInProgress | StatusBlocked | StatusClosed

text \<open>
  Modelled from the spec: a gate result (its declaration in internal/gates/gates.go is
  missing): gate name, passed flag, captured output, optional error.
\<close>

record GateResult =
  Gate :: string
  Passed :: bool
  Output :: string
  Error :: "string option"

text \<open>
  Modelled from the spec: an issue as the store holds it (the storage package is
  missing): identity, title and status. Its blocking dependencies are the store's edges.
\<close>

record StoredIssue =
  IssueID :: string
  IssueTitle :: string
  Status :: IssueStatus

text \<open>
  Modelled from the spec: the store (the storage package is missing): the issues in the
  order of their creation, the dependency edges, and the comments, each with its issue.
  An edge \<open>(x, y)\<close> says that \<open>x\<close> depends on \<open>y\<close>: \<open>y\<close> blocks \<open>x\<close>.
\<close>

record Store =
  issues :: "StoredIssue list"
  dependencies :: "(string \<times> string) list"
  comments :: "(string \<times> string) list"

text \<open>Modelled from the spec: the store's \<open>CreateIssue\<close> (the storage package is missing).\<close>

definition CreateIssue :: "StoredIssue \<Rightarrow> Store \<Rightarrow> Store" where
  "CreateIssue i st = st\<lparr>issues := issues st @ [i]\<rparr>"

text \<open>Modelled from the spec: the store's \<open>AddDependency\<close> (the storage package is missing).\<close>

definition AddDependency :: "string \<Rightarrow> string \<Rightarrow> Store \<Rightarrow> Store" where
  "AddDependency x y st = st\<lparr>dependencies := dependencies st @ [(x, y)]\<rparr>"

text \<open>Modelled from the spec: the store's \<open>AddComment\<close> (the storage package is missing).\<close>

definition AddComment :: "string \<Rightarrow> string \<Rightarrow> Store \<Rightarrow> Store" where
  "AddComment x c st = st\<lparr>comments := comments st @ [(x, c)]\<rparr>"

text \<open>
  Modelled from the spec: the store's update of an issue's status (the storage package
  is missing).
\<close>

definition UpdateStatus :: "string \<Rightarrow> IssueStatus \<Rightarrow> Store \<Rightarrow> Store" where
  "UpdateStatus x s st =
     st\<lparr>issues := map (\<lambda>i. if IssueID i = x then i\<lparr>Status := s\<rparr> else i) (issues st)\<rparr>"

text \<open>
  Modelled from the spec: the status that the store gives for an identity (the storage
  package is missing); \<open>None\<close> when it holds no such issue.
\<close>

fun status_of :: "StoredIssue list \<Rightarrow> string \<Rightarrow> IssueStatus option" where
  "status_of [] x = None"
| "status_of (i # rest) x = (if IssueID i = x then Some (Status i) else status_of rest x)"

text \<open>
  Modelled from the spec: the identity of the follow-up issue of one failed gate; the
  function that builds it (\<open>handleGateResultsFallback\<close> in internal/gates/gates.go) is
  missing. The spec's scenario names the follow-ups of issue A \<open>A-gate-test\<close> and
  \<open>A-gate-lint\<close>.
\<close>

definition follow_up_id :: "string \<Rightarrow> GateResult \<Rightarrow> string" where
  "follow_up_id x r = x @ ''-gate-'' @ Gate r"

text \<open>
  Modelled from the spec: the follow-up issue of one failed gate (built by the missing
  \<open>handleGateResultsFallback\<close>): a new, open issue that describes the failure.
\<close>

definition follow_up :: "string \<Rightarrow> GateResult \<Rightarrow> StoredIssue" where
  "follow_up x r =
     \<lparr>IssueID = follow_up_id x r,
      IssueTitle = ''Quality gate failure: '' @ Gate r @ '' for '' @ x,
      Status = StatusOpen\<rparr>"

text \<open>
  Modelled from the spec: the loop of the deterministic fallback (in the missing
  \<open>handleGateResultsFallback\<close>). For every failed gate, in order, it creates one
  follow-up issue and adds a dependency edge from the original issue to it.
\<close>

fun create_blockers :: "string \<Rightarrow> GateResult list \<Rightarrow> Store \<Rightarrow> Store" where
  "create_blockers x [] st = st"
| "create_blockers x (r # rs) st =
     (if Passed r then create_blockers x rs st
      else create_blockers x rs
             (AddDependency x (follow_up_id x r) (CreateIssue (follow_up x r) st)))"

text \<open>
  Modelled from the spec: the deterministic fallback (\<open>handleGateResultsFallback\<close> in
  internal/gates/gates.go, missing). After the loop it marks the original issue blocked
  and records the decision as a comment.
\<close>

definition handleGateResultsFallback :: "string \<Rightarrow> GateResult list \<Rightarrow> Store \<Rightarrow> Store" where
  "handleGateResultsFallback x results st =
     AddComment x ''Quality gates failed. Created blocking issue(s)''
       (UpdateStatus x StatusBlocked (create_blockers x results st))"

text \<open>
  Modelled from the spec: the recovery engine's choice of path (\<open>HandleGateResults\<close> in
  internal/gates/gates.go, missing). When every gate passed there is nothing to recover from. The
  AI-driven path is taken when a Supervisor is there (\<open>Some\<close>: what applying its strategy
  does to the store); the deterministic fallback is taken whenever it is unavailable or
  disabled (\<open>None\<close>).
\<close>

definition HandleGateResults ::
  "(string \<Rightarrow> GateResult list \<Rightarrow> Store \<Rightarrow> Store) option \<Rightarrow> string \<Rightarrow> GateResult list \<Rightarrow> Store \<Rightarrow> Store" where
  "HandleGateResults ai x results st =
     (if \<forall>r \<in> set results. Passed r then st
      else case ai of
             None \<Rightarrow> handleGateResultsFallback x results st
           | Some strategy \<Rightarrow> strategy x results st)"

subsection \<open>Sample inputs\<close>

definition gate_build :: GateResult where
  "gate_build = \<lparr>Gate = ''build'', Passed = True, Output = '''', Error = None\<rparr>"

definition gate_test :: GateResult where
  "gate_test = \<lparr>Gate = ''test'', Passed = False, Output = ''FAIL'', Error = Some ''exit status 1''\<rparr>"

definition gate_lint :: GateResult where
  "gate_lint = \<lparr>Gate = ''lint'', Passed = False, Output = ''warning'', Error = Some ''exit status 1''\<rparr>"

definition store_with_A :: Store where
  "store_with_A =
     \<lparr>issues = [\<lparr>IssueID = ''A'', IssueTitle = ''Create hello.txt file'', Status = StatusInProgress\<rparr>],
      dependencies = [], comments = []\<rparr>"

section \<open>The execution state machine\<close>

text \<open>
  The store's \<open>UpdateExecutionState\<close> and the executor's loop, which apply the transition
  table of the spec's section 4.1, are not among the sources. This section models them
  from the spec.
\<close>

text \<open>
  Modelled from the spec: the states of the transition table (the type is declared in
  the missing types package): the six execution states and, as first source and last
  target of the table, the issue statuses open and closed.
\<close>

datatype ExecutionState =
  Open | Claimed | Assessing | Executing | Completed | Blocked | Failed | Closed

text \<open>
  Modelled from the spec: the triggers of the transition table, each with the table's
  words (the executor that raises them is missing).
\<close>

datatype Trigger =
    ClaimSucceeds             \<comment> \<open>claim succeeds\<close>
  | SupervisionEnabled        \<comment> \<open>AI supervision enabled\<close>
  | SupervisionDisabled       \<comment> \<open>AI supervision disabled\<close>
  | AssessmentCompleted       \<comment> \<open>assessment completed\<close>
  | AssessmentFailed          \<comment> \<open>assessment call exhausted retries or returned an unparseable result\<close>
  | AgentSucceeded            \<comment> \<open>agent reported success and gates have not yet run\<close>
  | AgentFailed               \<comment> \<open>agent process error, timeout, or malformed report\<close>
  | GateFailureBlocks         \<comment> \<open>gate failure with recovery action that blocks\<close>
  | GatesPassOrClose          \<comment> \<open>gates pass, or recovery action explicitly closes\<close>
  | DependenciesClosed        \<comment> \<open>all blocking dependencies close\<close>
  | InternalError             \<comment> \<open>unrecoverable internal error\<close>

text \<open>
  Modelled from the spec: the transition table (applied by the missing store and
  executor), row by row; the last row of the table
  (any state to failed on an unrecoverable internal error) comes first here, as it holds
  in every state. A pair that the table does not list has no target.
\<close>

fun transition :: "ExecutionState \<Rightarrow> Trigger \<Rightarrow> ExecutionState option" where
  "transition s InternalError = Some Failed"
| "transition Open ClaimSucceeds = Some Claimed"
| "transition Claimed SupervisionEnabled = Some Assessing"
| "transition Claimed SupervisionDisabled = Some Executing"
| "transition Assessing AssessmentCompleted = Some Executing"
| "transition Assessing AssessmentFailed = Some Failed"
| "transition Executing AgentSucceeded = Some Completed"
| "transition Executing AgentFailed = Some Failed"
| "transition Completed GateFailureBlocks = Some Blocked"
| "transition Completed GatesPassOrClose = Some Closed"
| "transition Blocked DependenciesClosed = Some Open"
| "transition s t = None"

text \<open>
  Modelled from the spec: the error of a rejected store call (the storage package is
  missing); it names the state and the trigger.
\<close>

datatype transition_error = IllegalTransition ExecutionState Trigger

text \<open>
  Modelled from the spec: the store call that applies a trigger (\<open>UpdateExecutionState\<close>
  of the missing storage package). It fails for a pair that the table does not list.
\<close>

definition UpdateExecutionState ::
  "ExecutionState \<Rightarrow> Trigger \<Rightarrow> transition_error + ExecutionState" where
  "UpdateExecutionState s t =
     (case transition s t of None \<Rightarrow> Inl (IllegalTransition s t) | Some s' \<Rightarrow> Inr s')"

text \<open>
  Modelled from the spec: what the executor (missing) knows of an issue while it drives
  it: the current state, and the warnings logged so far.
\<close>

record ExecutorRun =
  current :: ExecutionState
  warnings :: "transition_error list"

text \<open>
  Modelled from the spec: one step of the executor (missing). A rejected store call is
  logged as a warning and leaves the state unchanged.
\<close>

definition executor_step :: "ExecutorRun \<Rightarrow> Trigger \<Rightarrow> ExecutorRun" where
  "executor_step run t =
     (case UpdateExecutionState (current run) t of
        Inl e \<Rightarrow> run\<lparr>warnings := warnings run @ [e]\<rparr>
      | Inr s' \<Rightarrow> run\<lparr>current := s'\<rparr>)"

text \<open>
  Modelled from the spec: the executor's loop (missing) over the triggers that reach an
  issue; after a rejected call it goes on with the next trigger.
\<close>

fun executor_loop :: "ExecutorRun \<Rightarrow> Trigger list \<Rightarrow> ExecutorRun" where
  "executor_loop run [] = run"
| "executor_loop run (t # ts) = executor_loop (executor_step run t) ts"

section \<open>The Supervisor's circuit breaker\<close>

text \<open>
  \<open>NewSupervisor\<close> creates the breaker with
  \<open>NewCircuitBreaker(FailureThreshold, SuccessThreshold, OpenTimeout)\<close>; the type and its
  operations are in retry.go, which is not among the sources. This section models them
  from the spec. Time is a number of ticks.
\<close>

text \<open>Modelled from the spec: the breaker's states (declared in the missing retry.go).\<close>

datatype CircuitState = CircuitClosed | CircuitOpen | CircuitHalfOpen

text \<open>
  Modelled from the spec: the breaker (declared in the missing retry.go): a state, a
  consecutive-failure counter, a consecutive-success counter, an open-since timestamp,
  whether the half-open trial is under way (the spec allows one half-open trial), the
  two thresholds and the timeout.
\<close>

record CircuitBreaker =
  state :: CircuitState
  failureCount :: nat
  successCount :: nat
  openSince :: nat
  trialInFlight :: bool
  failureThreshold :: nat
  successThreshold :: nat
  openTimeout :: nat


text \<open>
  Modelled from the spec: whether a call at time \<open>now\<close> may reach the provider (the
  breaker's operations are in the missing retry.go). Closed: it calls through. Open: it
  fails fast until the timeout has elapsed since the breaker opened; then the call is let
  through as the half-open trial. Half-open: one trial is allowed, so a call fails fast
  while a trial is under way and is the next trial otherwise.
\<close>

definition Allow :: "CircuitBreaker \<Rightarrow> nat \<Rightarrow> bool \<times> CircuitBreaker" where
  "Allow cb now =
     (case state cb of
        CircuitClosed \<Rightarrow> (True, cb)
      | CircuitOpen \<Rightarrow>
          if openSince cb + openTimeout cb \<le> now
          then (True, cb\<lparr>state := CircuitHalfOpen, successCount := 0, trialInFlight := True\<rparr>)
          else (False, cb)
      | CircuitHalfOpen \<Rightarrow>
          if trialInFlight cb then (False, cb) else (True, cb\<lparr>trialInFlight := True\<rparr>))"

text \<open>
  Modelled from the spec: what the success of a call that went through does to the
  breaker (in the missing retry.go). In the closed state it ends the run of failures; in
  the half-open state it ends the trial and counts, and the M-th one in a row closes the
  breaker.
\<close>

definition RecordSuccess :: "CircuitBreaker \<Rightarrow> CircuitBreaker" where
  "RecordSuccess cb =
     (case state cb of
        CircuitClosed \<Rightarrow> cb\<lparr>failureCount := 0\<rparr>
      | CircuitHalfOpen \<Rightarrow>
          if successThreshold cb \<le> successCount cb + 1
          then cb\<lparr>state := CircuitClosed, failureCount := 0, successCount := 0,
                  trialInFlight := False\<rparr>
          else cb\<lparr>successCount := successCount cb + 1, trialInFlight := False\<rparr>
      | CircuitOpen \<Rightarrow> cb)"

text \<open>
  Modelled from the spec: what the failure of a call that went through does to the
  breaker (in the missing retry.go). In the closed state it counts, and the N-th one in
  a row opens the breaker; any failure in the half-open state ends the trial and reopens
  it.
\<close>

definition RecordFailure :: "CircuitBreaker \<Rightarrow> nat \<Rightarrow> CircuitBreaker" where
  "RecordFailure cb now =
     (case state cb of
        CircuitClosed \<Rightarrow>
          if failureThreshold cb \<le> failureCount cb + 1
          then cb\<lparr>state := CircuitOpen, failureCount := failureCount cb + 1, openSince := now\<rparr>
          else cb\<lparr>failureCount := failureCount cb + 1\<rparr>
      | CircuitHalfOpen \<Rightarrow>
          cb\<lparr>state := CircuitOpen, successCount := 0, openSince := now, trialInFlight := False\<rparr>
      | CircuitOpen \<Rightarrow> cb)"

text \<open>
  Modelled from the spec: what happens at the breaker in an execution (the retry layer
  that uses the breaker is in the missing retry.go). A call asks \<open>Allow\<close> at some time
  and, if let through, reaches the provider and later records its success, or its
  failure at some time. Calls of several operations overlap, so an execution is any
  sequence of these three events.
\<close>

datatype BreakerEvent = AskAllow nat | ReportSuccess | ReportFailure nat

text \<open>Modelled from the spec: the breaker after one event (see \<open>BreakerEvent\<close>).\<close>

fun breaker_step :: "CircuitBreaker \<Rightarrow> BreakerEvent \<Rightarrow> CircuitBreaker" where
  "breaker_step cb (AskAllow now) = snd (Allow cb now)"
| "breaker_step cb ReportSuccess = RecordSuccess cb"
| "breaker_step cb (ReportFailure now) = RecordFailure cb now"

text \<open>Modelled from the spec: the breaker after an execution (see \<open>BreakerEvent\<close>).\<close>

fun breaker_run :: "CircuitBreaker \<Rightarrow> BreakerEvent list \<Rightarrow> CircuitBreaker" where
  "breaker_run cb [] = cb"
| "breaker_run cb (ev # evs) = breaker_run (breaker_step cb ev) evs"

text \<open>
  Modelled from the spec: the answers that the calls of an execution get from \<open>Allow\<close>,
  in order (see \<open>BreakerEvent\<close>): \<open>True\<close> for a call that reaches the provider, \<open>False\<close> for
  one that fails fast.
\<close>

fun breaker_answers :: "CircuitBreaker \<Rightarrow> BreakerEvent list \<Rightarrow> bool list" where
  "breaker_answers cb [] = []"
| "breaker_answers cb (AskAllow now # evs) =
     fst (Allow cb now) # breaker_answers (breaker_step cb (AskAllow now)) evs"
| "breaker_answers cb (ev # evs) = breaker_answers (breaker_step cb ev) evs"







subsection \<open>Sample inputs\<close>




section \<open>The Supervisor's retry layer and its structured operations\<close>

text \<open>
  \<open>retryWithBackoff\<close> is in retry.go and the structured operations are in assessment.go,
  analysis.go, recovery.go, planning.go and others; none of these files is among the
  sources, which only hold callers of the retry layer (\<open>CallAI\<close>, \<open>SummarizeAgentOutput\<close>)
  and, in the design notes, the text of one operation. This section models both from the
  spec.
\<close>

text \<open>
  Modelled from the spec: one attempt behind the circuit breaker (the stack is in the
  missing retry.go). When the breaker fails fast, the attempt ends with the breaker's
  error and the provider is not called. The breaker's verdict at this point of the
  execution is the parameter \<open>refuse\<close>: \<open>None\<close> lets the attempt through.
\<close>

definition guarded_attempt :: "(world \<Rightarrow> error option) \<Rightarrow> attempt \<Rightarrow> attempt" where
  "guarded_attempt refuse fn w = (case refuse w of Some err \<Rightarrow> (Inl err, w) | None \<Rightarrow> fn w)"

text \<open>
  Modelled from the spec: the loop of the retry layer (\<open>retryWithBackoff\<close>, in the missing
  retry.go). An attempt that succeeds ends the loop with its result. An error is
  classified by \<open>retriable\<close>: a terminal error propagates immediately, a retriable one is
  retried while retries are left (\<open>n\<close> of them) and is returned when none is. The waiting
  between attempts is not modelled.
\<close>

fun retry_attempts ::
  "(error \<Rightarrow> bool) \<Rightarrow> (world \<Rightarrow> error option) \<Rightarrow> nat \<Rightarrow> attempt \<Rightarrow> attempt" where
  "retry_attempts retriable refuse 0 fn w = guarded_attempt refuse fn w"
| "retry_attempts retriable refuse (Suc n) fn w =
     (case guarded_attempt refuse fn w of
        (Inr res, w') \<Rightarrow> (Inr res, w')
      | (Inl err, w') \<Rightarrow>
          if retriable err then retry_attempts retriable refuse n fn w' else (Inl err, w'))"

text \<open>
  Modelled from the spec: \<open>retryWithBackoff\<close> (in the missing retry.go) for a
  classification of errors, a breaker and a configured count of retries; the operation's
  label only serves for logging.
\<close>

definition retry_with_backoff ::
  "(error \<Rightarrow> bool) \<Rightarrow> (world \<Rightarrow> error option) \<Rightarrow> nat \<Rightarrow> string \<Rightarrow> attempt \<Rightarrow> attempt" where
  "retry_with_backoff retriable refuse maxRetries operation fn =
     retry_attempts retriable refuse maxRetries fn"

text \<open>
  Modelled from the spec: a Supervisor layered above a provider, with the retry layer
  above as its \<open>retryWithBackoff\<close> (which is in the missing retry.go).
\<close>

definition layered_supervisor ::
  "AIProvider \<Rightarrow> (error \<Rightarrow> bool) \<Rightarrow> (world \<Rightarrow> error option) \<Rightarrow> nat \<Rightarrow> Supervisor" where
  "layered_supervisor p retriable refuse maxRetries =
     \<lparr>provider = p, retryWithBackoff = retry_with_backoff retriable refuse maxRetries\<rparr>"

text \<open>
  Modelled from the spec: the errors of a structured operation (the operations are in
  files that are not among the sources): the call through the retry layer failed, with
  its error, or the response did not parse, with the parser's error.
\<close>

datatype operation_error =
    ProviderCallFailed error           \<comment> \<open>AI provider call failed: err\<close>
  | ResponseParseFailed string         \<comment> \<open>failed to parse ...: err\<close>

text \<open>
  Modelled from the spec: a structured operation of the Supervisor (assessment,
  completion check, analysis, recovery strategy, planning; their files are not among
  the sources). As the spec says, it builds a prompt, invokes the provider through the
  retry layer and parses the structured response; a parse failure is a hard error. The
  steps and the constants are those of \<open>AssessIssueState\<close> as the design notes
  (AI_PROVIDER_ABSTRACTION_DESIGN.md) give it, where every such function is said to
  follow this pattern: the error of the call is returned wrapped, then the error of the
  parser, and only a parsed response is logged and returned. The prompt builder and the
  parser of the operation are parameters; the parser returns its error or the decision.
\<close>

definition structured_operation ::
  "Supervisor \<Rightarrow> string \<Rightarrow> (Issue \<Rightarrow> string) \<Rightarrow> (string \<Rightarrow> string + 'a) \<Rightarrow> Issue \<Rightarrow> world
     \<Rightarrow> (operation_error + 'a) \<times> world" where
  "structured_operation s operation buildPrompt parseResponse issue w =
     (let prompt = buildPrompt issue in
      case retryWithBackoff s operation
             (provider_Invoke s \<lparr>Operation = operation, Prompt = prompt,
                                 MaxTokens = 4096, Model = ''''\<rparr>) w of
        (Inl err, w') \<Rightarrow> (Inl (ProviderCallFailed err), w')
      | (Inr result, w') \<Rightarrow>
          (case parseResponse (Text result) of
             Inl err \<Rightarrow> (Inl (ResponseParseFailed err), w')
           | Inr decision \<Rightarrow>
               (Inr decision,
                logAIUsage (ID issue) operation (InputTokens result) (OutputTokens result) w')))"

subsection \<open>Sample inputs\<close>

text \<open>
  A classification that retries every error and a breaker that stays closed; a prompt
  builder; a parser that knows two decisions and rejects every other text; a result
  object that has nothing but its type, one whose text is a decision and one whose text
  is prose.
\<close>

definition retry_every_error :: "error \<Rightarrow> bool" where
  "retry_every_error err = True"

definition breaker_closed :: "world \<Rightarrow> error option" where
  "breaker_closed w = None"

definition sample_prompt :: "Issue \<Rightarrow> string" where
  "sample_prompt issue = ''Is this issue complete? '' @ ID issue"

definition sample_parser :: "string \<Rightarrow> string + bool" where
  "sample_parser text =
     (if text = ''{\"complete\": true}'' then Inr True
      else if text = ''{\"complete\": false}'' then Inr False
      else Inl ''invalid character'')"

definition bare_result_object :: ClaudeCLIResponse where
  "bare_result_object = \<lparr>Type = ''result'', SessionID = '''', Result = '''', IsError = False,
                           Usage = no_usage\<rparr>"

definition decision_object :: ClaudeCLIResponse where
  "decision_object = \<lparr>Type = ''result'', SessionID = ''s1'', Result = ''{\"complete\": true}'',
       IsError = False,
       Usage = \<lparr>input_tokens = 3, output_tokens = 5, cache_read_input_tokens = 10,
                cache_creation_input_tokens = 20\<rparr>\<rparr>"

definition prose_object :: ClaudeCLIResponse where
  "prose_object = \<lparr>Type = ''result'', SessionID = ''s1'', Result = ''Looks complete to me.'',
                    IsError = False, Usage = no_usage\<rparr>"

definition cli_supervisor :: "decoder \<Rightarrow> Supervisor" where
  "cli_supervisor unmarshal =
     layered_supervisor (\<lambda>calls. Invoke sample_provider sample_run unmarshal)
       retry_every_error breaker_closed 2"

section \<open>Properties of the CLI backend\<close>

subsection \<open>The search for the result object\<close>

lemma find_result_None:
  "find_result rs = None \<longleftrightarrow> (\<forall>x \<in> set rs. Type x \<noteq> ''result'')"
  by (induction rs) auto

lemma find_result_append:
  "\<forall>x \<in> set pre. Type x \<noteq> ''result'' \<Longrightarrow> find_result (pre @ rs) = find_result rs"
  by (induction pre) auto

lemma find_result_first:
  assumes "\<forall>x \<in> set pre. Type x \<noteq> ''result''" and "Type r = ''result''"
  shows "find_result (pre @ r # post) = Some r"
  using assms by (simp add: find_result_append)

text \<open>Conversely, what the loop finds is the first element of type result.\<close>

lemma find_result_Some:
  "find_result rs = Some r \<Longrightarrow>
     \<exists>pre post. rs = pre @ r # post \<and> (\<forall>x \<in> set pre. Type x \<noteq> ''result'') \<and> Type r = ''result''"
proof (induction rs)
  case Nil
  then show ?case by simp
next
  case (Cons a rs)
  show ?case
  proof (cases "Type a = ''result''")
    case True
    with Cons.prems have "a = r" by simp
    with True show ?thesis by (intro exI[of _ "[]"] exI[of _ rs]) simp
  next
    case False
    with Cons obtain pre post where
      h: "rs = pre @ r # post" "\<forall>x \<in> set pre. Type x \<noteq> ''result''" "Type r = ''result''"
      by auto
    with False show ?thesis by (intro exI[of _ "a # pre"] exI[of _ post]) simp
  qed
qed

text \<open>
  The loop in terms of the elements of type result: it finds the first of them. When the
  array holds exactly one, as the arrays of the integration notes do, the first is also
  the last.
\<close>

lemma find_result_filter:
  "find_result rs =
     (case filter (\<lambda>x. Type x = ''result'') rs of [] \<Rightarrow> None | x # _ \<Rightarrow> Some x)"
  by (induction rs) auto

lemma last_result_single:
  assumes "filter (\<lambda>x. Type x = ''result'') rs = [r]"
  shows "find_result rs = Some r \<and> last_result rs = Some r"
proof -
  have "filter (\<lambda>x. Type x = ''result'') (rev rs) = [r]"
    using assms by (simp add: rev_filter[symmetric])
  then show ?thesis
    using assms by (simp add: last_result_def find_result_filter)
qed

text \<open>Once the process has run and its output has decoded, both functions depend on the array only.\<close>

lemma Invoke_parsed:
  assumes "run (claudePath p) (cli_args (Invoke_model p params) (Prompt params)) = (output, None)"
    and "unmarshal output = Inr responses"
  shows "Invoke p run unmarshal params = result_of_responses responses"
  using assms by (simp add: Invoke_def)

lemma invokeClaudeCLI_parsed:
  assumes "resolve_claude_path env_path home = Inr path"
    and "run path (cli_args mdl prompt) = (output, None)"
    and "unmarshal output = Inr responses"
  shows "invokeClaudeCLI env_path home run unmarshal prompt mdl =
           (case result_of_responses responses of
              Inl e \<Rightarrow> Inl e
            | Inr r \<Rightarrow> Inr (Text r, InputTokens r, OutputTokens r))"
  using assms by (simp add: invokeClaudeCLI_def)

lemma find_result_sample: "find_result sample_responses = Some success_object"
  by (simp add: sample_responses_def system_object_def assistant_object_def success_object_def)

text \<open>
  The sum of the three counts is computed in Go's \<open>int\<close>. Read as signed integers, it is
  the integer sum whenever that sum is an \<open>int\<close> (the partial sum of the first two need
  not be one).
\<close>

lemma token_sum_signed:
  fixes a b c :: goint
  assumes "- (2 ^ 63) \<le> sint a + sint b + sint c" and "sint a + sint b + sint c < 2 ^ 63"
  shows "sint (a + b + c) = sint a + sint b + sint c"
proof -
  have "a + b + c = word_of_int (sint a + sint b + sint c)" by simp
  then have "sint (a + b + c) = signed_take_bit 63 (sint a + sint b + sint c)"
    by (simp only: sint_sbintrunc') simp
  also have "\<dots> = sint a + sint b + sint c"
    using assms by (intro signed_take_bit_int_eq_self) simp_all
  finally show ?thesis .
qed

subsection \<open>Token accounting\<close>

text \<open>
  C1. When the output of the binary decodes to an array whose result object \<open>r\<close> does
  not report an error, \<open>Invoke\<close> returns an \<open>InvokeResult\<close> whose \<open>InputTokens\<close> is
  \<open>input_tokens + cache_read_input_tokens + cache_creation_input_tokens\<close> of \<open>r\<close> (Go's
  addition on \<open>int\<close>) and whose \<open>OutputTokens\<close> is \<open>output_tokens\<close> of \<open>r\<close>; so does
  \<open>invokeClaudeCLI\<close>, as its second and third results.
\<close>

theorem Invoke_token_accounting:
  assumes "find_result responses = Some r" and "\<not> IsError r"
    and "unmarshal output = Inr responses"
  shows "(run (claudePath p) (cli_args (Invoke_model p params) (Prompt params)) = (output, None)
          \<longrightarrow> Invoke p run unmarshal params =
                Inr \<lparr>Text = Result r,
                     InputTokens = input_tokens (Usage r) + cache_read_input_tokens (Usage r)
                                   + cache_creation_input_tokens (Usage r),
                     OutputTokens = output_tokens (Usage r)\<rparr>)
       \<and> (resolve_claude_path env_path home = Inr path
            \<and> run path (cli_args mdl prompt) = (output, None)
          \<longrightarrow> invokeClaudeCLI env_path home run unmarshal prompt mdl =
                Inr (Result r,
                     input_tokens (Usage r) + cache_read_input_tokens (Usage r)
                       + cache_creation_input_tokens (Usage r),
                     output_tokens (Usage r)))"
proof -
  have parsed: "result_of_responses responses =
           Inr \<lparr>Text = Result r,
                InputTokens = input_tokens (Usage r) + cache_read_input_tokens (Usage r)
                              + cache_creation_input_tokens (Usage r),
                OutputTokens = output_tokens (Usage r)\<rparr>"
    using assms(1,2) by (simp add: result_of_responses_def)
  show ?thesis
  proof (intro conjI impI)
    assume "run (claudePath p) (cli_args (Invoke_model p params) (Prompt params)) = (output, None)"
    from Invoke_parsed[where run=run and unmarshal=unmarshal, OF this assms(3)] parsed
    show "Invoke p run unmarshal params =
                Inr \<lparr>Text = Result r,
                     InputTokens = input_tokens (Usage r) + cache_read_input_tokens (Usage r)
                                   + cache_creation_input_tokens (Usage r),
                     OutputTokens = output_tokens (Usage r)\<rparr>"
      by simp
  next
    assume h: "resolve_claude_path env_path home = Inr path
            \<and> run path (cli_args mdl prompt) = (output, None)"
    from invokeClaudeCLI_parsed[where run=run and unmarshal=unmarshal,
        OF h[THEN conjunct1] h[THEN conjunct2] assms(3)] parsed
    show "invokeClaudeCLI env_path home run unmarshal prompt mdl =
                Inr (Result r,
                     input_tokens (Usage r) + cache_read_input_tokens (Usage r)
                       + cache_creation_input_tokens (Usage r),
                     output_tokens (Usage r))"
      by simp
  qed
qed

text \<open>
  The theorem at the array of the integration notes, with 3 input tokens, 10 read from
  the cache and 20 written to it: 33 input tokens are reported.
\<close>

theorem Invoke_token_accounting_witness:
  "find_result sample_responses = Some success_object \<and> \<not> IsError success_object
   \<and> decode_as sample_responses ''[...]'' = Inr sample_responses
   \<and> sample_run (claudePath sample_provider)
        (cli_args (Invoke_model sample_provider sample_params) (Prompt sample_params))
        = (''[...]'', None)
   \<and> resolve_claude_path ''/opt/claude'' (Inr ''/home/u'') = Inr ''/opt/claude''
   \<and> sample_run ''/opt/claude'' (cli_args ''haiku'' ''What is 2+2?'') = (''[...]'', None)
   \<and> Invoke sample_provider sample_run (decode_as sample_responses) sample_params =
        Inr \<lparr>Text = ''4'', InputTokens = 33, OutputTokens = 5\<rparr>
   \<and> invokeClaudeCLI ''/opt/claude'' (Inr ''/home/u'') sample_run (decode_as sample_responses)
        ''What is 2+2?'' ''haiku''
        = Inr (''4'', 33, 5)"
proof -
  have h1: "find_result sample_responses = Some success_object" by (rule find_result_sample)
  have h2: "\<not> IsError success_object" by (simp add: success_object_def)
  have h3: "decode_as sample_responses ''[...]'' = Inr sample_responses"
    by (simp add: decode_as_def)
  have h4: "sample_run (claudePath sample_provider)
        (cli_args (Invoke_model sample_provider sample_params) (Prompt sample_params))
        = (''[...]'', None)"
    by (simp add: sample_run_def)
  have h5: "resolve_claude_path ''/opt/claude'' (Inr ''/home/u'') = Inr ''/opt/claude''"
    by (simp add: resolve_claude_path_def)
  have h6: "sample_run ''/opt/claude'' (cli_args ''haiku'' ''What is 2+2?'') = (''[...]'', None)"
    by (simp add: sample_run_def)
  note acc = Invoke_token_accounting[where unmarshal="decode_as sample_responses"
      and run=sample_run, OF h1 h2 h3]
  have a: "Invoke sample_provider sample_run (decode_as sample_responses) sample_params =
        Inr \<lparr>Text = Result success_object,
             InputTokens = input_tokens (Usage success_object)
                           + cache_read_input_tokens (Usage success_object)
                           + cache_creation_input_tokens (Usage success_object),
             OutputTokens = output_tokens (Usage success_object)\<rparr>"
    by (rule acc[THEN conjunct1, rule_format, OF h4])
  have b: "invokeClaudeCLI ''/opt/claude'' (Inr ''/home/u'') sample_run (decode_as sample_responses)
        ''What is 2+2?'' ''haiku''
        = Inr (Result success_object,
               input_tokens (Usage success_object)
                 + cache_read_input_tokens (Usage success_object)
                 + cache_creation_input_tokens (Usage success_object),
               output_tokens (Usage success_object))"
    by (rule acc[THEN conjunct2, rule_format, where path="''/opt/claude''"])
       (simp add: h5 h6)
  show ?thesis using a b h1 h2 h3 h4 h5 h6 by (simp add: success_object_def)
qed

subsection \<open>Which result object is selected\<close>

text \<open>
  C2 as stated fails: on an array with two result objects, the first a success and the
  last an error, \<open>Invoke\<close> returns the success, although the last object of type result
  has its error flag set.
\<close>

theorem Invoke_last_result_counterexample:
  "Invoke sample_provider sample_run (decode_as two_results) sample_params =
     Inr \<lparr>Text = ''4'', InputTokens = 33, OutputTokens = 5\<rparr>
   \<and> last_result two_results = Some error_object \<and> IsError error_object"
  by (simp add: Invoke_def sample_run_def decode_as_def two_results_def
      result_of_responses_def last_result_def system_object_def success_object_def
      error_object_def)

text \<open>
  C2, amended. For every output that decodes to an array, \<open>Invoke\<close> selects the first
  object of type result: the element \<open>r\<close> of type result that no element of type result
  precedes. If its error flag is set, \<open>Invoke\<close> returns an error made from its text, never
  a result; if it is not set, \<open>Invoke\<close> returns a result with its text. If the array has no
  object of type result, \<open>Invoke\<close> returns an error.
\<close>

theorem Invoke_selects_first_result:
  assumes "run (claudePath p) (cli_args (Invoke_model p params) (Prompt params)) = (output, None)"
    and "unmarshal output = Inr responses"
  shows "((\<forall>x \<in> set responses. Type x \<noteq> ''result'') \<longrightarrow>
            Invoke p run unmarshal params = Inl NoResultObject)
       \<and> (\<forall>pre r post.
            responses = pre @ r # post \<and> (\<forall>x \<in> set pre. Type x \<noteq> ''result'')
              \<and> Type r = ''result''
            \<longrightarrow> (IsError r \<longrightarrow>
                   Invoke p run unmarshal params = Inl (CLIReturnedError (Result r)))
              \<and> (\<not> IsError r \<longrightarrow>
                   (\<exists>res. Invoke p run unmarshal params = Inr res \<and> Text res = Result r)))"
proof (intro conjI allI impI)
  assume "\<forall>x \<in> set responses. Type x \<noteq> ''result''"
  then have "find_result responses = None" by (simp add: find_result_None)
  then show "Invoke p run unmarshal params = Inl NoResultObject"
    using Invoke_parsed[where run=run and unmarshal=unmarshal, OF assms]
    by (simp add: result_of_responses_def)
next
  fix pre r post
  assume h: "responses = pre @ r # post \<and> (\<forall>x \<in> set pre. Type x \<noteq> ''result'')
               \<and> Type r = ''result''"
  then have f: "find_result responses = Some r" by (simp add: find_result_first)
  { assume "IsError r"
    with f show "Invoke p run unmarshal params = Inl (CLIReturnedError (Result r))"
      using Invoke_parsed[where run=run and unmarshal=unmarshal, OF assms]
      by (simp add: result_of_responses_def) }
  { assume "\<not> IsError r"
    with f show "\<exists>res. Invoke p run unmarshal params = Inr res \<and> Text res = Result r"
      using Invoke_parsed[where run=run and unmarshal=unmarshal, OF assms]
      by (simp add: result_of_responses_def Let_def) }
qed

text \<open>
  The amended claim on three arrays: a success before an error, an error before a
  success, and no result object.
\<close>

theorem Invoke_selects_first_result_witness:
  "sample_run (claudePath sample_provider)
      (cli_args (Invoke_model sample_provider sample_params) (Prompt sample_params))
      = (''[...]'', None)
   \<and> decode_as two_results ''[...]'' = Inr two_results
   \<and> two_results = [system_object] @ success_object # [error_object]
   \<and> Type system_object \<noteq> ''result'' \<and> Type success_object = ''result''
   \<and> \<not> IsError success_object
   \<and> (\<exists>res. Invoke sample_provider sample_run (decode_as two_results) sample_params = Inr res
            \<and> Text res = ''4'')
   \<and> error_first = [system_object] @ error_object # [success_object]
   \<and> Type error_object = ''result'' \<and> IsError error_object
   \<and> Invoke sample_provider sample_run (decode_as error_first) sample_params
        = Inl (CLIReturnedError ''overloaded'')
   \<and> Type assistant_object \<noteq> ''result''
   \<and> Invoke sample_provider sample_run (decode_as [system_object, assistant_object]) sample_params
        = Inl NoResultObject"
proof -
  have run: "sample_run (claudePath sample_provider)
      (cli_args (Invoke_model sample_provider sample_params) (Prompt sample_params))
      = (''[...]'', None)"
    by (simp add: sample_run_def)
  have d: "\<And>rs. decode_as rs ''[...]'' = Inr rs" by (simp add: decode_as_def)
  have types: "Type system_object \<noteq> ''result''" "Type assistant_object \<noteq> ''result''"
    "Type success_object = ''result''" "Type error_object = ''result''"
    "\<not> IsError success_object" "IsError error_object"
    "Result success_object = ''4''" "Result error_object = ''overloaded''"
    by (simp_all add: system_object_def assistant_object_def success_object_def error_object_def)
  have s1: "two_results = [system_object] @ success_object # [error_object]"
    by (simp add: two_results_def)
  have s2: "error_first = [system_object] @ error_object # [success_object]"
    by (simp add: error_first_def)
  have a: "\<exists>res. Invoke sample_provider sample_run (decode_as two_results) sample_params = Inr res
            \<and> Text res = Result success_object"
    by (rule Invoke_selects_first_result[where run=sample_run and unmarshal="decode_as two_results",
          OF run d, THEN conjunct2, rule_format, where pre="[system_object]"
          and r=success_object and post="[error_object]", THEN conjunct2, rule_format])
       (simp_all add: s1 types)
  have b: "Invoke sample_provider sample_run (decode_as error_first) sample_params
        = Inl (CLIReturnedError (Result error_object))"
    by (rule Invoke_selects_first_result[where run=sample_run and unmarshal="decode_as error_first",
          OF run d, THEN conjunct2, rule_format, where pre="[system_object]"
          and r=error_object and post="[success_object]", THEN conjunct1, rule_format])
       (simp_all add: s2 types)
  have c: "Invoke sample_provider sample_run (decode_as [system_object, assistant_object]) sample_params
        = Inl NoResultObject"
    by (rule Invoke_selects_first_result[where run=sample_run
          and unmarshal="decode_as [system_object, assistant_object]",
          OF run d, THEN conjunct1, rule_format])
       (auto simp: types)
  show ?thesis using run d types s1 s2 a b c by simp
qed

section \<open>Properties of the Supervisor utilities\<close>

subsection \<open>Short outputs are not summarized\<close>

text \<open>
  C9. For every issue and \<open>maxLength\<close>, \<open>SummarizeAgentOutput\<close> returns the fixed string
  "Agent completed with no output" and no error when \<open>fullOutput\<close> is empty, and returns
  \<open>fullOutput\<close> itself and no error when \<open>fullOutput\<close> is not empty and its length is at
  most \<open>maxLength\<close> (the test for the empty output comes first in the source). In both
  cases the state is returned as it was: the provider has received no call, whatever
  the provider and the retry layer are.
\<close>

theorem SummarizeAgentOutput_short_output:
  "(fullOutput = [] \<longrightarrow>
      SummarizeAgentOutput s issue fullOutput maxLength w
        = (Inr ''Agent completed with no output'', w))
   \<and> (fullOutput \<noteq> [] \<and> int (length fullOutput) \<le> maxLength \<longrightarrow>
      SummarizeAgentOutput s issue fullOutput maxLength w = (Inr fullOutput, w))
   \<and> (fullOutput = [] \<or> int (length fullOutput) \<le> maxLength \<longrightarrow>
      provider_calls (snd (SummarizeAgentOutput s issue fullOutput maxLength w))
        = provider_calls w)"
  by (simp add: SummarizeAgentOutput_def)

text \<open>
  The theorem at the empty output and at a four-byte output with a limit of four, for a
  Supervisor whose provider would fail.
\<close>

theorem SummarizeAgentOutput_short_output_witness:
  "SummarizeAgentOutput failing_supervisor sample_issue [] 100 start_world
     = (Inr ''Agent completed with no output'', start_world)
   \<and> ''done'' \<noteq> [] \<and> int (length ''done'') \<le> 4
   \<and> SummarizeAgentOutput failing_supervisor sample_issue ''done'' 4 start_world
     = (Inr ''done'', start_world)
   \<and> provider_calls (snd (SummarizeAgentOutput failing_supervisor sample_issue ''done'' 4 start_world))
     = []"
  using SummarizeAgentOutput_short_output[of "[]" failing_supervisor sample_issue 100 start_world]
    SummarizeAgentOutput_short_output[of "''done''" failing_supervisor sample_issue 4 start_world]
  by (simp add: start_world_def)

text \<open>By contrast, an output longer than the limit does reach the provider.\<close>

lemma SummarizeAgentOutput_long_output_calls:
  "length (provider_calls
     (snd (SummarizeAgentOutput failing_supervisor sample_issue ''done!'' 4 start_world))) = 1"
  by (simp add: SummarizeAgentOutput_def failing_supervisor_def single_attempt_def
      provider_Invoke_def start_world_def Invoke_def sample_run_def decode_fails_def Let_def)

subsection \<open>Truncation at a character boundary\<close>

text \<open>
  What the loop returns: the empty string, or its argument less at most three bytes,
  and then a valid one.
\<close>

lemma truncate_loop_result:
  "truncate_loop i t = [] \<or>
   (\<exists>k. i + k < 4 \<and> k < length t \<and> truncate_loop i t = take (length t - k) t
        \<and> ValidString (truncate_loop i t))"
proof (induction i t rule: truncate_loop.induct)
  case (1 i truncated)
  show ?case
  proof (cases "i < 4 \<and> length truncated > 0")
    case False
    then have "truncate_loop i truncated = []" by (subst truncate_loop.simps) simp
    then show ?thesis by simp
  next
    case True
    show ?thesis
    proof (cases "ValidString truncated")
      case v: True
      with True have "truncate_loop i truncated = truncated"
        by (subst truncate_loop.simps) simp
      with v True show ?thesis by (intro disjI2 exI[of _ 0]) simp
    next
      case nv: False
      let ?t' = "take (length truncated - 1) truncated"
      from True nv have eq: "truncate_loop i truncated = truncate_loop (i + 1) ?t'"
        by (subst truncate_loop.simps) simp
      from "1.IH"[OF True nv] show ?thesis
      proof
        assume "truncate_loop (i + 1) ?t' = []"
        with eq show ?thesis by simp
      next
        assume "\<exists>k. i + 1 + k < 4 \<and> k < length ?t' \<and>
                  truncate_loop (i + 1) ?t' = take (length ?t' - k) ?t' \<and>
                  ValidString (truncate_loop (i + 1) ?t')"
        then obtain k where k: "i + 1 + k < 4" "k < length ?t'"
          "truncate_loop (i + 1) ?t' = take (length ?t' - k) ?t'"
          "ValidString (truncate_loop (i + 1) ?t')" by blast
        have "take (length ?t' - k) ?t' = take (length truncated - Suc k) truncated"
          by (simp add: min_def)
        with k eq True show ?thesis
          by (intro disjI2 exI[of _ "Suc k"]) auto
      qed
    qed
  qed
qed

text \<open>
  A valid string followed by any bytes is valid exactly when those bytes are: a valid
  prefix of a valid string ends where a character ends.
\<close>

lemma ValidString_append_left:
  "ValidString a \<Longrightarrow> ValidString (a @ b) = ValidString b"
proof (induction a rule: ValidString.induct)
  case 1
  then show ?case by simp
next
  case (2 c cs)
  then show ?case
    by (auto simp: Let_def split: if_splits list.splits)
qed

text \<open>
  C10. For every string \<open>s\<close> and non-negative \<open>maxLen\<close>, \<open>safeTruncateString\<close> returns \<open>s\<close>
  itself when the length of \<open>s\<close> is at most \<open>maxLen\<close>. Otherwise it returns \<open>t\<close>, which is
  the empty string or the first \<open>maxLen - k\<close> bytes of \<open>s\<close> for some \<open>k\<close> of at most 3 (so
  within the four bytes of the claim); \<open>t\<close> has at most \<open>maxLen\<close> bytes and is valid UTF-8,
  and when \<open>s\<close> is valid UTF-8 the rest of \<open>s\<close> after \<open>t\<close> is valid UTF-8 too, so the cut
  does not split a multi-byte sequence.
\<close>

theorem safeTruncateString_valid_prefix:
  assumes "0 \<le> maxLen"
  shows "(int (length s) \<le> maxLen \<longrightarrow> safeTruncateString s maxLen = Some s)
       \<and> (maxLen < int (length s) \<longrightarrow>
            (\<exists>t. safeTruncateString s maxLen = Some t
                \<and> (t = [] \<or> (\<exists>k\<le>3. t = take (nat maxLen - k) s))
                \<and> length t \<le> nat maxLen
                \<and> ValidString t
                \<and> (ValidString s \<longrightarrow> ValidString (drop (length t) s))))"
proof (intro conjI impI)
  assume "int (length s) \<le> maxLen"
  then show "safeTruncateString s maxLen = Some s" by (simp add: safeTruncateString_def)
next
  assume long: "maxLen < int (length s)"
  let ?cut = "take (nat maxLen) s"
  let ?t = "truncate_loop 0 ?cut"
  from long assms have len: "length ?cut = nat maxLen" by simp
  from long assms have res: "safeTruncateString s maxLen = Some ?t"
    by (simp add: safeTruncateString_def)
  have shape: "?t = [] \<or> (\<exists>k\<le>3. ?t = take (nat maxLen - k) s \<and> ValidString ?t)"
  proof -
    from truncate_loop_result[of 0 ?cut] show ?thesis
    proof
      assume "?t = []" then show ?thesis by simp
    next
      assume "\<exists>k. 0 + k < 4 \<and> k < length ?cut \<and> ?t = take (length ?cut - k) ?cut
                \<and> ValidString ?t"
      then obtain k where k: "k < 4" "?t = take (length ?cut - k) ?cut" "ValidString ?t"
        by auto
      have "take (length ?cut - k) ?cut = take (nat maxLen - k) s"
        using len by (simp add: min_def)
      with k show ?thesis by (intro disjI2 exI[of _ k]) simp
    qed
  qed
  have valid: "ValidString ?t" using shape by auto
  have short: "length ?t \<le> nat maxLen" using shape by auto
  have pre: "take (length ?t) s = ?t" using shape by (auto simp: min_def)
  have rest: "ValidString (drop (length ?t) s)" if "ValidString s"
  proof -
    have "s = ?t @ drop (length ?t) s" using pre by (metis append_take_drop_id)
    with that valid show ?thesis by (metis ValidString_append_left)
  qed
  from res shape short valid rest
  show "\<exists>t. safeTruncateString s maxLen = Some t
                \<and> (t = [] \<or> (\<exists>k\<le>3. t = take (nat maxLen - k) s))
                \<and> length t \<le> nat maxLen
                \<and> ValidString t
                \<and> (ValidString s \<longrightarrow> ValidString (drop (length t) s))"
    by (intro exI[of _ ?t]) blast
qed

text \<open>
  On the five bytes of \<open>a\<close>, the euro sign and \<open>b\<close>: a limit of 3 would cut the euro sign
  after its second byte, and the function backs off two bytes to \<open>a\<close>; a limit of 4 keeps
  the euro sign; a limit of 5 keeps everything. A limit of 2 on the euro sign alone
  leaves nothing.
\<close>

lemma safeTruncateString_euro_3: "safeTruncateString euro_text 3 = Some ''a''"
  by (simp add: euro_text_def safeTruncateString_def between_def truncate_loop.simps)

lemma safeTruncateString_euro_4:
  "safeTruncateString euro_text 4 = Some [CHR ''a'', CHR 0xE2, CHR 0x82, CHR 0xAC]"
  by (simp add: euro_text_def safeTruncateString_def between_def truncate_loop.simps)

lemma safeTruncateString_euro_alone:
  "safeTruncateString [CHR 0xE2, CHR 0x82, CHR 0xAC] 2 = Some []"
  by (simp add: safeTruncateString_def between_def truncate_loop.simps)

theorem safeTruncateString_valid_prefix_witness:
  "(0::int) \<le> 3 \<and> (3::int) < int (length euro_text)
   \<and> safeTruncateString euro_text 3 = Some ''a''
   \<and> ''a'' = take (nat 3 - 2) euro_text
   \<and> ValidString ''a'' \<and> ValidString euro_text \<and> ValidString (drop (length ''a'') euro_text)
   \<and> int (length euro_text) \<le> 5 \<and> safeTruncateString euro_text 5 = Some euro_text"
proof -
  have h: "(0::int) \<le> 3" by simp
  have h5: "(0::int) \<le> 5" by simp
  show ?thesis
    using safeTruncateString_valid_prefix[OF h, of euro_text]
      safeTruncateString_valid_prefix[OF h5, of euro_text] safeTruncateString_euro_3
    by (simp add: euro_text_def between_def)
qed

subsection \<open>On valid input the result is the longest valid prefix\<close>

text \<open>
  In a valid string a character has at most four bytes, so every cut is at most three
  bytes after the end of a character.
\<close>

lemma valid_cut_back_off:
  "ValidString s \<Longrightarrow> n \<le> length s \<Longrightarrow> \<exists>k\<le>3. k \<le> n \<and> ValidString (take (n - k) s)"
proof (induction s arbitrary: n rule: ValidString.induct)
  case 1
  then show ?case by simp
next
  case (2 c cs)
  let ?b = "of_char c :: nat"
  show ?case
  proof (cases n)
    case 0
    then show ?thesis by simp
  next
    case (Suc m)
    consider (ascii) "?b < 0x80"
      | (two) "\<not> ?b < 0x80" "0xC2 \<le> ?b \<and> ?b \<le> 0xDF"
      | (three) "\<not> ?b < 0x80" "\<not> (0xC2 \<le> ?b \<and> ?b \<le> 0xDF)" "0xE0 \<le> ?b \<and> ?b \<le> 0xEF"
      | (four) "\<not> ?b < 0x80" "\<not> (0xC2 \<le> ?b \<and> ?b \<le> 0xDF)" "\<not> (0xE0 \<le> ?b \<and> ?b \<le> 0xEF)"
          "0xF0 \<le> ?b \<and> ?b \<le> 0xF4"
      | (bad) "\<not> ?b < 0x80" "\<not> (0xC2 \<le> ?b \<and> ?b \<le> 0xDF)" "\<not> (0xE0 \<le> ?b \<and> ?b \<le> 0xEF)"
          "\<not> (0xF0 \<le> ?b \<and> ?b \<le> 0xF4)"
      by blast
    then show ?thesis
    proof cases
      case ascii
      with "2.prems" have v: "ValidString cs" by simp
      from "2.prems" Suc have "m \<le> length cs" by simp
      from "2.IH"(1)[OF refl ascii v this] obtain k where k: "k \<le> 3" "k \<le> m" "ValidString (take (m - k) cs)"
        by blast
      have "take (n - k) (c # cs) = c # take (m - k) cs" using Suc k by (simp add: Suc_diff_le)
      with k ascii Suc show ?thesis by (intro exI[of _ k]) simp
    next
      case two
      with "2.prems" obtain c1 r where cs: "cs = c1 # r" and b1: "between 0x80 0xBF c1" and v: "ValidString r"
        by (auto simp: Let_def split: list.splits)
      show ?thesis
      proof (cases "m = 0")
        case True
        with Suc show ?thesis by (intro exI[of _ 1]) simp
      next
        case False
        then obtain m' where m: "m = Suc m'" by (cases m) auto
        from "2.prems" Suc m cs have "m' \<le> length r" by simp
        from "2.IH"(2)[OF refl two cs v this] obtain k where k: "k \<le> 3" "k \<le> m'" "ValidString (take (m' - k) r)"
          by blast
        have "take (n - k) (c # cs) = c # c1 # take (m' - k) r" using Suc m k cs by (simp add: Suc_diff_le)
        with k two b1 Suc m show ?thesis by (intro exI[of _ k]) simp
      qed
    next
      case three
      with "2.prems" obtain c1 c2 r where cs: "cs = c1 # c2 # r"
        and b1: "between (if ?b = 0xE0 then 0xA0 else 0x80) (if ?b = 0xED then 0x9F else 0xBF) c1"
        and b2: "between 0x80 0xBF c2" and v: "ValidString r"
        by (auto simp: Let_def split: list.splits)
      show ?thesis
      proof (cases "m < 2")
        case True
        with Suc show ?thesis by (intro exI[of _ n]) simp
      next
        case False
        then obtain m' where m: "m = Suc (Suc m')" by (metis Suc_lessI less_2_cases_iff not0_implies_Suc not_less_eq)
        from "2.prems" Suc m cs have "m' \<le> length r" by simp
        from "2.IH"(3)[OF refl three cs refl v this] obtain k where k: "k \<le> 3" "k \<le> m'" "ValidString (take (m' - k) r)"
          by blast
        have "take (n - k) (c # cs) = c # c1 # c2 # take (m' - k) r" using Suc m k cs by (simp add: Suc_diff_le)
        with k three b1 b2 Suc m show ?thesis by (intro exI[of _ k]) simp
      qed
    next
      case four
      with "2.prems" obtain c1 c2 c3 r where cs: "cs = c1 # c2 # c3 # r"
        and b1: "between (if ?b = 0xF0 then 0x90 else 0x80) (if ?b = 0xF4 then 0x8F else 0xBF) c1"
        and b2: "between 0x80 0xBF c2" and b3: "between 0x80 0xBF c3" and v: "ValidString r"
        by (auto simp: Let_def split: list.splits)
      show ?thesis
      proof (cases "m < 3")
        case True
        with Suc show ?thesis by (intro exI[of _ n]) simp
      next
        case False
        then obtain m' where m: "m = Suc (Suc (Suc m'))"
          by (metis Suc_lessI less_2_cases_iff not0_implies_Suc not_less_eq numeral_3_eq_3)
        from "2.prems" Suc m cs have "m' \<le> length r" by simp
        from "2.IH"(4)[OF refl four cs refl refl v this] obtain k where k: "k \<le> 3" "k \<le> m'" "ValidString (take (m' - k) r)"
          by blast
        have "take (n - k) (c # cs) = c # c1 # c2 # c3 # take (m' - k) r" using Suc m k cs by (simp add: Suc_diff_le)
        with k four b1 b2 b3 Suc m show ?thesis by (intro exI[of _ k]) simp
      qed
    next
      case bad
      with "2.prems" show ?thesis by simp
    qed
  qed
qed

text \<open>The loop returns the first valid probe.\<close>

lemma truncate_loop_least:
  "i + k < 4 \<Longrightarrow> k < length t \<Longrightarrow> ValidString (take (length t - k) t) \<Longrightarrow>
   (\<forall>j<k. \<not> ValidString (take (length t - j) t)) \<Longrightarrow>
   truncate_loop i t = take (length t - k) t"
proof (induction k arbitrary: i t)
  case 0
  then show ?case by (subst truncate_loop.simps) simp
next
  case (Suc k)
  let ?t' = "take (length t - 1) t"
  from Suc.prems(4) have nv: "\<not> ValidString t" by fastforce
  from Suc.prems have len': "length ?t' = length t - 1" by simp
  have shift: "\<And>j. take (length ?t' - j) ?t' = take (length t - Suc j) t"
    by (simp add: min_def)
  have "truncate_loop (i + 1) ?t' = take (length ?t' - k) ?t'"
  proof (rule Suc.IH)
    show "i + 1 + k < 4" using Suc.prems(1) by simp
    show "k < length ?t'" using Suc.prems(2) by simp
    show "ValidString (take (length ?t' - k) ?t')" using Suc.prems(3) shift[of k] by metis
    show "\<forall>j<k. \<not> ValidString (take (length ?t' - j) ?t')"
    proof (intro allI impI)
      fix j assume "j < k"
      then have "\<not> ValidString (take (length t - Suc j) t)" using Suc.prems(4) by simp
      then show "\<not> ValidString (take (length ?t' - j) ?t')" using shift[of j] by metis
    qed
  qed
  moreover have "i < 4 \<and> length t > 0" using Suc.prems(1,2) by auto
  with nv have "truncate_loop i t = truncate_loop (i + 1) ?t'"
    by (subst truncate_loop.simps) simp
  ultimately show ?case using shift[of k] by metis
qed

text \<open>When no probe is valid, the loop returns the empty string.\<close>

lemma truncate_loop_none:
  "(\<forall>j. j < length t \<and> i + j < 4 \<longrightarrow> \<not> ValidString (take (length t - j) t)) \<Longrightarrow>
   truncate_loop i t = []"
proof (induction i t rule: truncate_loop.induct)
  case (1 i truncated)
  show ?case
  proof (cases "i < 4 \<and> length truncated > 0")
    case False
    then show ?thesis by (subst truncate_loop.simps) simp
  next
    case True
    let ?t' = "take (length truncated - 1) truncated"
    from "1.prems" True have nv: "\<not> ValidString truncated" by fastforce
    have shift: "\<And>j. take (length ?t' - j) ?t' = take (length truncated - Suc j) truncated"
      by (simp add: min_def)
    have "truncate_loop (i + 1) ?t' = []"
    proof (rule "1.IH"[OF True nv], intro allI impI)
      fix j assume j: "j < length ?t' \<and> i + 1 + j < 4"
      then have "Suc j < length truncated \<and> i + Suc j < 4" by auto
      with "1.prems" have "\<not> ValidString (take (length truncated - Suc j) truncated)" by blast
      then show "\<not> ValidString (take (length ?t' - j) ?t')" using shift[of j] by metis
    qed
    with True nv show ?thesis by (subst truncate_loop.simps) simp
  qed
qed

text \<open>
  So on a valid string that is longer than the limit, the function returns the longest
  prefix of at most \<open>maxLen\<close> bytes that is valid.
\<close>

lemma safeTruncateString_longest_valid_prefix:
  assumes "ValidString s" and "0 \<le> maxLen" and "maxLen < int (length s)"
  shows "\<exists>m\<le>nat maxLen. safeTruncateString s maxLen = Some (take m s)
           \<and> ValidString (take m s)
           \<and> (\<forall>j. m < j \<and> j \<le> nat maxLen \<longrightarrow> \<not> ValidString (take j s))"
proof -
  let ?n = "nat maxLen"
  let ?cut = "take ?n s"
  from assms have n: "?n \<le> length s" and len: "length ?cut = ?n" by simp_all
  have res: "safeTruncateString s maxLen = Some (truncate_loop 0 ?cut)"
    using assms by (simp add: safeTruncateString_def)
  have cut: "\<And>j. take (length ?cut - j) ?cut = take (?n - j) s"
    using len by (simp add: min_def)
  define P where "P k \<longleftrightarrow> k \<le> 3 \<and> k \<le> ?n \<and> ValidString (take (?n - k) s)" for k
  from valid_cut_back_off[OF assms(1) n] have "\<exists>k. P k" by (auto simp: P_def)
  then obtain k where k: "P k" and least: "\<And>j. j < k \<Longrightarrow> \<not> P j"
    by (metis exists_least_iff)
  from k have k3: "k \<le> 3" "k \<le> ?n" "ValidString (take (?n - k) s)" by (simp_all add: P_def)
  have inv: "\<not> ValidString (take (?n - j) s)" if "j < k" for j
    using least[OF that] that k3 by (simp add: P_def)
  have loop: "truncate_loop 0 ?cut = take (?n - k) s"
  proof (cases "k < ?n")
    case True
    have "truncate_loop 0 ?cut = take (length ?cut - k) ?cut"
    proof (rule truncate_loop_least)
      show "0 + k < 4" using k3 by simp
      show "k < length ?cut" using True len by simp
      show "ValidString (take (length ?cut - k) ?cut)" using k3(3) cut[of k] by metis
      show "\<forall>j<k. \<not> ValidString (take (length ?cut - j) ?cut)"
      proof (intro allI impI)
        fix j assume "j < k"
        from inv[OF this] show "\<not> ValidString (take (length ?cut - j) ?cut)"
          using cut[of j] by metis
      qed
    qed
    then show ?thesis using cut[of k] by metis
  next
    case False
    with k3 have kn: "k = ?n" by simp
    have "truncate_loop 0 ?cut = []"
    proof (rule truncate_loop_none, intro allI impI)
      fix j assume "j < length ?cut \<and> 0 + j < 4"
      with len kn have "j < k" by simp
      from inv[OF this] have "\<not> ValidString (take (?n - j) s)" .
      moreover have "take (length ?cut - j) ?cut = take (?n - j) s" by (rule cut)
      ultimately show "\<not> ValidString (take (length ?cut - j) ?cut)" by simp
    qed
    with kn show ?thesis by simp
  qed
  have maxi: "\<not> ValidString (take j s)" if "?n - k < j \<and> j \<le> ?n" for j
  proof -
    from that have "?n - j < k" and "j = ?n - (?n - j)" by auto
    with inv[of "?n - j"] show ?thesis by simp
  qed
  show ?thesis
    using res loop k3 maxi by (intro exI[of _ "?n - k"]) auto
qed

section \<open>Properties of the agent backends\<close>

text \<open>\<open>strings.Fields\<close> on the custom arguments of the tests, and on white space beyond ASCII.\<close>

lemma Fields_custom_args:
  "Fields ''--model sonnet  --verbose'' = [''--model'', ''sonnet'', ''--verbose'']"
  by (simp add: Fields_def)

lemma Fields_unicode_space:
  "Fields [CHR ''a'', CHR 0xC2, CHR 0xA0, CHR ''b'', CHR 0xE2, CHR 0x80, CHR 0x83, CHR 0xC3, CHR 0xA9]
     = [''a'', ''b'', [CHR 0xC3, CHR 0xA9]]"
  by (simp add: Fields_def between_def)

text \<open>
  C7 as stated fails, in three places. With \<open>StreamJSON\<close> set, the argument vector that
  \<open>AmpProvider\<close> builds ends with \<open>--stream-json\<close>, not with the prompt. With
  \<open>VC_CLAUDE_ARGS\<close> set as in the integration notes, \<open>ClaudeCodeProvider\<close> includes
  \<open>--dangerously-skip-permissions\<close> although the variable is set. With \<open>VC_CLAUDE_ARGS\<close>
  set to the streaming format, it includes \<open>--output-format stream-json\<close> although
  \<open>StreamJSON\<close> is not set.
\<close>

theorem BuildCommand_claim_counterexample:
  "Args (AmpProvider_BuildCommand streaming_cfg ''Fix the bug'')
     = [''amp'', ''--dangerously-allow-all'', ''--execute'', ''Fix the bug'', ''--stream-json'']
   \<and> last (Args (AmpProvider_BuildCommand streaming_cfg ''Fix the bug'')) \<noteq> ''Fix the bug''
   \<and> doc_args_env ''VC_CLAUDE_ARGS'' = Some ''--dangerously-skip-permissions --model sonnet''
   \<and> Args (ClaudeCodeProvider_BuildCommand doc_args_env (Inr ''/home/u'') plain_cfg ''Fix the bug'')
     = [''/home/u/.claude/local/claude'', ''--print'', ''--dangerously-skip-permissions'',
        ''--model'', ''sonnet'', ''Fix the bug'']
   \<and> StreamJSON plain_cfg = False
   \<and> Args (ClaudeCodeProvider_BuildCommand format_args_env (Inr ''/home/u'') plain_cfg ''Fix the bug'')
     = [''/home/u/.claude/local/claude'', ''--print'', ''--output-format'', ''stream-json'',
        ''Fix the bug'']"
  by (simp add: AmpProvider_BuildCommand_def ClaudeCodeProvider_BuildCommand_def
      exec_CommandContext_def claude_code_path_def os_Getenv_def doc_args_env_def
      format_args_env_def streaming_cfg_def plain_cfg_def default_claude_path_def
      filepath_Join_def filepath_Clean_def Fields_def Let_def)

text \<open>
  C7, amended. For every configuration and prompt, \<open>ClaudeCodeProvider\<close> builds the binary,
  then flags, then the prompt as the last argument. It always includes \<open>--print\<close>, right
  after the binary, and includes \<open>--output-format stream-json\<close> after it whenever
  \<open>StreamJSON\<close> is set. When \<open>VC_CLAUDE_ARGS\<close> is unset it adds
  \<open>--dangerously-skip-permissions\<close>, and then \<open>--output-format stream-json\<close> is included
  exactly when \<open>StreamJSON\<close> is set; when \<open>VC_CLAUDE_ARGS\<close> is set to a value that is not
  empty, the fields of that value stand in the place of \<open>--dangerously-skip-permissions\<close>.
  (Nothing is said of \<open>VC_CLAUDE_ARGS\<close> set to the empty string.) \<open>AmpProvider\<close> builds
  \<open>amp --dangerously-allow-all --execute\<close>, the prompt, then \<open>--stream-json\<close> exactly when
  \<open>StreamJSON\<close> is set: its prompt is the last argument when \<open>StreamJSON\<close> is not set, and
  the last argument is \<open>--stream-json\<close> when it is.
\<close>

theorem BuildCommand_argument_vectors:
  "last (Args (ClaudeCodeProvider_BuildCommand env home cfg prompt)) = prompt
   \<and> take 2 (Args (ClaudeCodeProvider_BuildCommand env home cfg prompt))
        = [claude_code_path env home, ''--print'']
   \<and> (StreamJSON cfg \<longrightarrow>
        take 2 (drop 2 (Args (ClaudeCodeProvider_BuildCommand env home cfg prompt)))
          = [''--output-format'', ''stream-json''])
   \<and> (env ''VC_CLAUDE_ARGS'' = None \<longrightarrow>
        Args (ClaudeCodeProvider_BuildCommand env home cfg prompt) =
          [claude_code_path env home, ''--print'']
          @ (if StreamJSON cfg then [''--output-format'', ''stream-json''] else [])
          @ [''--dangerously-skip-permissions'', prompt]
      \<and> has_adjacent ''--output-format'' ''stream-json''
            (Args (ClaudeCodeProvider_BuildCommand env home cfg prompt)) = StreamJSON cfg)
   \<and> (\<forall>v. env ''VC_CLAUDE_ARGS'' = Some v \<and> v \<noteq> [] \<longrightarrow>
        Args (ClaudeCodeProvider_BuildCommand env home cfg prompt) =
          [claude_code_path env home, ''--print'']
          @ (if StreamJSON cfg then [''--output-format'', ''stream-json''] else [])
          @ Fields v @ [prompt])
   \<and> Args (AmpProvider_BuildCommand cfg prompt) =
      [''amp'', ''--dangerously-allow-all'', ''--execute'', prompt]
      @ (if StreamJSON cfg then [''--stream-json''] else [])
   \<and> last (Args (AmpProvider_BuildCommand cfg prompt))
        = (if StreamJSON cfg then ''--stream-json'' else prompt)"
  by (auto simp: ClaudeCodeProvider_BuildCommand_def AmpProvider_BuildCommand_def
      exec_CommandContext_def os_Getenv_def Let_def)

text \<open>
  The amended claim on the inputs of the tests: no variable set, with streaming; the
  custom arguments and the custom path, without streaming; Amp without streaming.
\<close>

theorem BuildCommand_argument_vectors_witness:
  "Map.empty ''VC_CLAUDE_ARGS'' = (None :: string option) \<and> StreamJSON streaming_cfg
   \<and> Args (ClaudeCodeProvider_BuildCommand Map.empty (Inr ''/home/u'') streaming_cfg ''Fix the bug'')
     = [''/home/u/.claude/local/claude'', ''--print'', ''--output-format'', ''stream-json'',
        ''--dangerously-skip-permissions'', ''Fix the bug'']
   \<and> custom_args_env ''VC_CLAUDE_ARGS'' = Some ''--model sonnet  --verbose''
   \<and> ''--model sonnet  --verbose'' \<noteq> []
   \<and> Args (ClaudeCodeProvider_BuildCommand custom_args_env (Inr ''/home/u'') plain_cfg ''Fix the bug'')
     = [''/custom/path/to/claude'', ''--print'', ''--model'', ''sonnet'', ''--verbose'',
        ''Fix the bug'']
   \<and> Args (AmpProvider_BuildCommand plain_cfg ''Fix the bug'')
     = [''amp'', ''--dangerously-allow-all'', ''--execute'', ''Fix the bug'']
   \<and> last (Args (AmpProvider_BuildCommand plain_cfg ''Fix the bug'')) = ''Fix the bug''"
  using BuildCommand_argument_vectors[of Map.empty "Inr ''/home/u''" streaming_cfg "''Fix the bug''"]
    BuildCommand_argument_vectors[of custom_args_env "Inr ''/home/u''" plain_cfg "''Fix the bug''"]
  by (simp add: claude_code_path_def os_Getenv_def custom_args_env_def streaming_cfg_def
      plain_cfg_def default_claude_path_def filepath_Join_def filepath_Clean_def Fields_def)

section \<open>Properties of the deterministic fallback\<close>

lemma create_blockers_issues:
  "issues (create_blockers x rs st) =
     issues st @ map (follow_up x) (filter (\<lambda>r. \<not> Passed r) rs)"
  by (induction rs arbitrary: st) (simp_all add: CreateIssue_def AddDependency_def)

lemma create_blockers_dependencies:
  "dependencies (create_blockers x rs st) =
     dependencies st @ map (\<lambda>r. (x, follow_up_id x r)) (filter (\<lambda>r. \<not> Passed r) rs)"
  by (induction rs arbitrary: st) (simp_all add: CreateIssue_def AddDependency_def)

lemma status_of_append:
  "status_of (xs @ ys) x =
     (case status_of xs x of None \<Rightarrow> status_of ys x | Some s \<Rightarrow> Some s)"
  by (induction xs) auto

lemma status_of_update:
  "status_of xs x \<noteq> None \<Longrightarrow>
   status_of (map (\<lambda>i. if IssueID i = x then i\<lparr>Status := s\<rparr> else i) xs) x = Some s"
  by (induction xs) auto

lemma follow_up_id_neq: "follow_up_id x r \<noteq> x"
  by (simp add: follow_up_id_def)

text \<open>
  C3. When the AI path is unavailable or disabled (\<open>None\<close>) and at least one gate failed,
  handling the gate results of an issue \<open>x\<close> that the store holds leaves the store with
  its earlier issues followed by exactly one new follow-up issue per failed gate, in the
  gates' order; with one more dependency edge from \<open>x\<close> to each follow-up; and with \<open>x\<close>
  blocked.
\<close>

theorem fallback_blocks_on_each_failed_gate:
  assumes "\<exists>r \<in> set results. \<not> Passed r"
    and "status_of (issues st) x \<noteq> None"
  shows "issues (HandleGateResults None x results st) =
           map (\<lambda>i. if IssueID i = x then i\<lparr>Status := StatusBlocked\<rparr> else i) (issues st)
           @ map (follow_up x) (filter (\<lambda>r. \<not> Passed r) results)
       \<and> length (issues (HandleGateResults None x results st)) =
           length (issues st) + length (filter (\<lambda>r. \<not> Passed r) results)
       \<and> dependencies (HandleGateResults None x results st) =
           dependencies st
           @ map (\<lambda>r. (x, follow_up_id x r)) (filter (\<lambda>r. \<not> Passed r) results)
       \<and> status_of (issues (HandleGateResults None x results st)) x = Some StatusBlocked"
proof -
  let ?failed = "filter (\<lambda>r. \<not> Passed r) results"
  let ?upd = "\<lambda>i. if IssueID i = x then i\<lparr>Status := StatusBlocked\<rparr> else i"
  from assms(1)
  have run: "HandleGateResults None x results st = handleGateResultsFallback x results st"
    by (auto simp: HandleGateResults_def)
  have new: "map ?upd (map (follow_up x) ?failed) = map (follow_up x) ?failed"
    by (simp add: follow_up_def follow_up_id_neq)
  have iss: "issues (handleGateResultsFallback x results st) =
               map ?upd (issues st) @ map (follow_up x) ?failed"
    using new
    by (simp add: handleGateResultsFallback_def AddComment_def UpdateStatus_def
        create_blockers_issues)
  have deps: "dependencies (handleGateResultsFallback x results st) =
           dependencies st @ map (\<lambda>r. (x, follow_up_id x r)) ?failed"
    by (simp add: handleGateResultsFallback_def AddComment_def UpdateStatus_def
        create_blockers_dependencies)
  have st: "status_of (map ?upd (issues st) @ map (follow_up x) ?failed) x = Some StatusBlocked"
    using status_of_update[OF assms(2), of StatusBlocked] by (simp add: status_of_append)
  show ?thesis using run iss deps st by simp
qed

text \<open>
  The spec's scenario: issue A with build passed, test failed and lint failed gets the
  two follow-ups \<open>A-gate-test\<close> and \<open>A-gate-lint\<close>, depends on both, and is blocked.
\<close>

theorem fallback_blocks_on_each_failed_gate_witness:
  "(\<exists>r \<in> set [gate_build, gate_test, gate_lint]. \<not> Passed r)
   \<and> status_of (issues store_with_A) ''A'' \<noteq> None
   \<and> map IssueID (issues (HandleGateResults None ''A'' [gate_build, gate_test, gate_lint] store_with_A))
        = [''A'', ''A-gate-test'', ''A-gate-lint'']
   \<and> length (issues (HandleGateResults None ''A'' [gate_build, gate_test, gate_lint] store_with_A))
        = 1 + 2
   \<and> dependencies (HandleGateResults None ''A'' [gate_build, gate_test, gate_lint] store_with_A)
        = [(''A'', ''A-gate-test''), (''A'', ''A-gate-lint'')]
   \<and> status_of (issues (HandleGateResults None ''A'' [gate_build, gate_test, gate_lint] store_with_A)) ''A''
        = Some StatusBlocked"
proof -
  have h1: "\<exists>r \<in> set [gate_build, gate_test, gate_lint]. \<not> Passed r"
    by (simp add: gate_test_def)
  have h2: "status_of (issues store_with_A) ''A'' \<noteq> None"
    by (simp add: store_with_A_def)
  show ?thesis
    using fallback_blocks_on_each_failed_gate[OF h1 h2] h1 h2
    by (simp add: gate_build_def gate_test_def gate_lint_def store_with_A_def follow_up_def
        follow_up_id_def)
qed

section \<open>Properties of the execution state machine\<close>

text \<open>
  C4. For every state and trigger that the transition table does not list, the store
  call fails with an error, the executor's step leaves the state unchanged and adds that
  error to its warnings, and the loop goes on with the triggers that follow. A step that
  changes the state changes it to the target that the table gives: no transition outside
  the table is applied.
\<close>

theorem illegal_transition_rejected:
  "(transition (current run) t = None \<longrightarrow>
       UpdateExecutionState (current run) t = Inl (IllegalTransition (current run) t)
     \<and> executor_step run t = run\<lparr>warnings := warnings run @ [IllegalTransition (current run) t]\<rparr>
     \<and> current (executor_step run t) = current run
     \<and> executor_loop run (t # ts) =
         executor_loop (run\<lparr>warnings := warnings run @ [IllegalTransition (current run) t]\<rparr>) ts)
   \<and> (current (executor_step run t) \<noteq> current run \<longrightarrow>
         transition (current run) t = Some (current (executor_step run t)))"
  by (auto simp: executor_step_def UpdateExecutionState_def split: option.splits)

text \<open>
  A completed issue that is claimed again: the claim is rejected with a warning and the
  next trigger, a blocking gate failure, is applied. The bypass of the assessment is in
  the table.
\<close>

theorem illegal_transition_rejected_witness:
  "transition (current \<lparr>current = Completed, warnings = []\<rparr>) ClaimSucceeds = None
   \<and> executor_step \<lparr>current = Completed, warnings = []\<rparr> ClaimSucceeds
        = \<lparr>current = Completed, warnings = [IllegalTransition Completed ClaimSucceeds]\<rparr>
   \<and> executor_loop \<lparr>current = Completed, warnings = []\<rparr> [ClaimSucceeds, GateFailureBlocks]
        = \<lparr>current = Blocked, warnings = [IllegalTransition Completed ClaimSucceeds]\<rparr>
   \<and> current (executor_step \<lparr>current = Claimed, warnings = []\<rparr> SupervisionDisabled) \<noteq> Claimed
   \<and> transition Claimed SupervisionDisabled = Some Executing"
  using illegal_transition_rejected[of "\<lparr>current = Completed, warnings = []\<rparr>" ClaimSucceeds
      "[GateFailureBlocks]"]
    illegal_transition_rejected[of "\<lparr>current = Claimed, warnings = []\<rparr>" SupervisionDisabled "[]"]
  by (simp add: executor_step_def UpdateExecutionState_def)

section \<open>Properties of the circuit breaker\<close>


lemma breaker_answers_append:
  "breaker_answers cb (xs @ ys) = breaker_answers cb xs @ breaker_answers (breaker_run cb xs) ys"
  by (induction cb xs rule: breaker_answers.induct) auto













section \<open>Parse failures\<close>

text \<open>What the retry layer returns is what an attempt returned.\<close>

lemma guarded_attempt_result:
  "guarded_attempt refuse (provider_Invoke s params) w = (Inr res, w')
   \<Longrightarrow> \<exists>calls. provider s calls params = Inr res"
  by (auto simp: guarded_attempt_def provider_Invoke_def split: option.splits)

lemma retry_attempts_result:
  "retry_attempts retriable refuse n (provider_Invoke s params) w = (Inr res, w')
   \<Longrightarrow> \<exists>calls. provider s calls params = Inr res"
proof (induction n arbitrary: w)
  case 0
  then show ?case by (auto dest: guarded_attempt_result)
next
  case (Suc n)
  show ?case
  proof (cases "guarded_attempt refuse (provider_Invoke s params) w")
    case (Pair r w1)
    show ?thesis
    proof (cases r)
      case (Inl err)
      with Pair Suc.prems have "retry_attempts retriable refuse n (provider_Invoke s params) w1
                                  = (Inr res, w')"
        by (simp split: if_splits)
      then show ?thesis by (rule Suc.IH)
    next
      case (Inr res1)
      with Pair Suc.prems have "guarded_attempt refuse (provider_Invoke s params) w = (Inr res, w')"
        by simp
      then show ?thesis by (rule guarded_attempt_result)
    qed
  qed
qed

lemma layered_supervisor_result:
  assumes "retryWithBackoff (layered_supervisor p retriable refuse n) operation
             (provider_Invoke (layered_supervisor p retriable refuse n) params) w = (Inr res, w')"
  shows "\<exists>calls. p calls params = Inr res"
  using retry_attempts_result[of retriable refuse n "layered_supervisor p retriable refuse n"
      params w res w'] assms
  by (simp add: layered_supervisor_def retry_with_backoff_def)

text \<open>
  C6. For a Supervisor layered above any provider, with any classification of errors, any
  breaker and any count of retries, and for a structured operation with any prompt
  builder and any parser: (1) a CLI output that is not valid JSON, or that holds no result
  object, makes \<open>Invoke\<close> return an error, not a result; (2) when the call through the
  retry layer ends with an error, the operation returns that error, wrapped; (3) when the
  parser rejects the text of the response, the operation returns the parser's error,
  wrapped; (4) a decision that the operation returns is what the parser made of the text
  of an answer that the provider gave to this call, so nothing computed locally stands in
  for it; (5) when the parser rejects the text of every answer that the provider gives,
  the operation returns an error. (6) \<open>SummarizeAgentOutput\<close>, past its two early returns,
  and \<open>CallAI\<close> return the wrapped error when the call through the retry layer ends with
  an error, and a text that they return is the text of an answer of the provider.
\<close>

theorem parse_failure_is_hard_error:
  assumes "s = layered_supervisor p retriable refuse n"
    and "call = \<lparr>Operation = operation, Prompt = buildPrompt issue, MaxTokens = 4096,
                  Model = ''''\<rparr>"
    and "summarization = \<lparr>Operation = ''summarization'',
                           Prompt = buildSummarizationPrompt issue fullOutput maxLength,
                           MaxTokens = 4096, Model = ''''\<rparr>"
    and "generic = \<lparr>Operation = operation, Prompt = prompt,
                     MaxTokens = (if maxTokens = 0 then 4096 else maxTokens), Model = mdl\<rparr>"
  shows
   "(run (claudePath cli) (cli_args (Invoke_model cli params) (Prompt params)) = (output, None) \<longrightarrow>
       (unmarshal output = Inl err \<longrightarrow>
          Invoke cli run unmarshal params = Inl (ParseFailed err output))
     \<and> (\<forall>responses. unmarshal output = Inr responses \<and> find_result responses = None \<longrightarrow>
           Invoke cli run unmarshal params = Inl NoResultObject))
    \<and> (retryWithBackoff s operation (provider_Invoke s call) w = (Inl e, w1) \<longrightarrow>
         structured_operation s operation buildPrompt parseResponse issue w
           = (Inl (ProviderCallFailed e), w1))
    \<and> (retryWithBackoff s operation (provider_Invoke s call) w = (Inr res, w1)
         \<and> parseResponse (Text res) = Inl perr \<longrightarrow>
         structured_operation s operation buildPrompt parseResponse issue w
           = (Inl (ResponseParseFailed perr), w1))
    \<and> (structured_operation s operation buildPrompt parseResponse issue w = (Inr decision, w2) \<longrightarrow>
         (\<exists>calls answer. p calls call = Inr answer \<and> parseResponse (Text answer) = Inr decision))
    \<and> ((\<forall>calls answer. p calls call = Inr answer \<longrightarrow> isl (parseResponse (Text answer))) \<longrightarrow>
         isl (fst (structured_operation s operation buildPrompt parseResponse issue w)))
    \<and> (fullOutput \<noteq> [] \<and> maxLength < int (length fullOutput) \<longrightarrow>
         (retryWithBackoff s ''summarization'' (provider_Invoke s summarization) w = (Inl e, w1) \<longrightarrow>
            SummarizeAgentOutput s issue fullOutput maxLength w = (Inl (SummarizationFailed e), w1))
       \<and> (SummarizeAgentOutput s issue fullOutput maxLength w = (Inr summary, w3) \<longrightarrow>
            (\<exists>calls answer. p calls summarization = Inr answer \<and> summary = Text answer)))
    \<and> (retryWithBackoff s operation (provider_Invoke s generic) w = (Inl e, w1) \<longrightarrow>
         CallAI s prompt operation mdl maxTokens w = (Inl (AICallFailed e), w1))
    \<and> (CallAI s prompt operation mdl maxTokens w = (Inr text, w4) \<longrightarrow>
         (\<exists>calls answer. p calls generic = Inr answer \<and> text = Text answer))"
proof (intro conjI)
  show "run (claudePath cli) (cli_args (Invoke_model cli params) (Prompt params)) = (output, None) \<longrightarrow>
       (unmarshal output = Inl err \<longrightarrow>
          Invoke cli run unmarshal params = Inl (ParseFailed err output))
     \<and> (\<forall>responses. unmarshal output = Inr responses \<and> find_result responses = None \<longrightarrow>
           Invoke cli run unmarshal params = Inl NoResultObject)"
    by (simp add: Invoke_def result_of_responses_def)
  show "retryWithBackoff s operation (provider_Invoke s call) w = (Inl e, w1) \<longrightarrow>
         structured_operation s operation buildPrompt parseResponse issue w
           = (Inl (ProviderCallFailed e), w1)"
    using assms(2) by (simp add: structured_operation_def)
  show "retryWithBackoff s operation (provider_Invoke s call) w = (Inr res, w1)
         \<and> parseResponse (Text res) = Inl perr \<longrightarrow>
         structured_operation s operation buildPrompt parseResponse issue w
           = (Inl (ResponseParseFailed perr), w1)"
    using assms(2) by (simp add: structured_operation_def)
  show parsed: "structured_operation s operation buildPrompt parseResponse issue w
          = (Inr decision, w2) \<longrightarrow>
         (\<exists>calls answer. p calls call = Inr answer \<and> parseResponse (Text answer) = Inr decision)"
    for decision w2
  proof
    assume op: "structured_operation s operation buildPrompt parseResponse issue w
                  = (Inr decision, w2)"
    obtain r w' where r: "retryWithBackoff s operation (provider_Invoke s call) w = (r, w')"
      by (cases "retryWithBackoff s operation (provider_Invoke s call) w") auto
    with op assms(2) obtain answer where a: "r = Inr answer"
      "parseResponse (Text answer) = Inr decision"
      by (cases r; cases "parseResponse (Text (projr r))")
         (auto simp: structured_operation_def)
    from r a(1) layered_supervisor_result[of p retriable refuse n operation call w answer w']
    obtain calls where "p calls call = Inr answer"
      using assms(1) by auto
    with a(2) show "\<exists>calls answer. p calls call = Inr answer
                      \<and> parseResponse (Text answer) = Inr decision"
      by blast
  qed
  show "(\<forall>calls answer. p calls call = Inr answer \<longrightarrow> isl (parseResponse (Text answer))) \<longrightarrow>
         isl (fst (structured_operation s operation buildPrompt parseResponse issue w))"
  proof
    assume rej: "\<forall>calls answer. p calls call = Inr answer \<longrightarrow> isl (parseResponse (Text answer))"
    show "isl (fst (structured_operation s operation buildPrompt parseResponse issue w))"
    proof (rule ccontr)
      assume "\<not> isl (fst (structured_operation s operation buildPrompt parseResponse issue w))"
      then obtain d w' where "structured_operation s operation buildPrompt parseResponse issue w
                               = (Inr d, w')"
        by (cases "structured_operation s operation buildPrompt parseResponse issue w";
            cases "fst (structured_operation s operation buildPrompt parseResponse issue w)")
           auto
      with parsed[of d w'] rej show False by fastforce
    qed
  qed
  show "fullOutput \<noteq> [] \<and> maxLength < int (length fullOutput) \<longrightarrow>
         (retryWithBackoff s ''summarization'' (provider_Invoke s summarization) w = (Inl e, w1) \<longrightarrow>
            SummarizeAgentOutput s issue fullOutput maxLength w = (Inl (SummarizationFailed e), w1))
       \<and> (SummarizeAgentOutput s issue fullOutput maxLength w = (Inr summary, w3) \<longrightarrow>
            (\<exists>calls answer. p calls summarization = Inr answer \<and> summary = Text answer))"
  proof (intro impI conjI)
    assume long: "fullOutput \<noteq> [] \<and> maxLength < int (length fullOutput)"
    {
      assume "retryWithBackoff s ''summarization'' (provider_Invoke s summarization) w = (Inl e, w1)"
      with long assms(3)
      show "SummarizeAgentOutput s issue fullOutput maxLength w = (Inl (SummarizationFailed e), w1)"
        by (simp add: SummarizeAgentOutput_def Let_def)
    }
    assume sum: "SummarizeAgentOutput s issue fullOutput maxLength w = (Inr summary, w3)"
    obtain r w' where r: "retryWithBackoff s ''summarization'' (provider_Invoke s summarization) w
                            = (r, w')"
      by (cases "retryWithBackoff s ''summarization'' (provider_Invoke s summarization) w") auto
    with sum long assms(3) obtain answer where a: "r = Inr answer" "summary = Text answer"
      by (cases r) (auto simp: SummarizeAgentOutput_def Let_def)
    from r a(1)
      layered_supervisor_result[of p retriable refuse n "''summarization''" summarization w answer w']
    obtain calls where "p calls summarization = Inr answer"
      using assms(1) by auto
    with a(2) show "\<exists>calls answer. p calls summarization = Inr answer \<and> summary = Text answer"
      by blast
  qed
  show "retryWithBackoff s operation (provider_Invoke s generic) w = (Inl e, w1) \<longrightarrow>
         CallAI s prompt operation mdl maxTokens w = (Inl (AICallFailed e), w1)"
    using assms(4) by (simp add: CallAI_def Let_def)
  show "CallAI s prompt operation mdl maxTokens w = (Inr text, w4) \<longrightarrow>
         (\<exists>calls answer. p calls generic = Inr answer \<and> text = Text answer)"
  proof
    assume call: "CallAI s prompt operation mdl maxTokens w = (Inr text, w4)"
    obtain r w' where r: "retryWithBackoff s operation (provider_Invoke s generic) w = (r, w')"
      by (cases "retryWithBackoff s operation (provider_Invoke s generic) w") auto
    with call assms(4) obtain answer where a: "r = Inr answer" "text = Text answer"
      by (cases r) (auto simp: CallAI_def Let_def)
    from r a(1) layered_supervisor_result[of p retriable refuse n operation generic w answer w']
    obtain calls where "p calls generic = Inr answer"
      using assms(1) by auto
    with a(2) show "\<exists>calls answer. p calls generic = Inr answer \<and> text = Text answer"
      by blast
  qed
qed

text \<open>
  The theorem at a Supervisor above the CLI backend, with two retries of every error. On
  an output that does not decode, the operation makes three calls and returns the parse
  error of the last, as do \<open>SummarizeAgentOutput\<close> and \<open>CallAI\<close>. On a result object that has
  nothing but its type, the text is empty and the operation returns the error of its
  parser. On a result object whose text is a decision, the operation returns the
  decision. An array without a result object makes \<open>Invoke\<close> return an error.
\<close>

theorem parse_failure_is_hard_error_witness:
  "sample_run (claudePath sample_provider)
      (cli_args (Invoke_model sample_provider sample_params) (Prompt sample_params))
      = (''[...]'', None)
   \<and> decode_fails ''[...]'' = Inl ''unexpected end of JSON input''
   \<and> Invoke sample_provider sample_run decode_fails sample_params
        = Inl (ParseFailed ''unexpected end of JSON input'' ''[...]'')
   \<and> find_result [system_object, assistant_object] = None
   \<and> Invoke sample_provider sample_run (decode_as [system_object, assistant_object]) sample_params
        = Inl NoResultObject
   \<and> structured_operation (cli_supervisor decode_fails) ''completion'' sample_prompt sample_parser
        sample_issue start_world
        = (Inl (ProviderCallFailed (ParseFailed ''unexpected end of JSON input'' ''[...]'')),
           start_world\<lparr>provider_calls :=
             replicate 3 \<lparr>Operation = ''completion'', Prompt = ''Is this issue complete? vc-5'',
                           MaxTokens = 4096, Model = ''''\<rparr>\<rparr>)
   \<and> Invoke sample_provider sample_run (decode_as [bare_result_object]) sample_params
        = Inr \<lparr>Text = '''', InputTokens = 0, OutputTokens = 0\<rparr>
   \<and> sample_parser '''' = Inl ''invalid character''
   \<and> fst (structured_operation (cli_supervisor (decode_as [bare_result_object])) ''completion''
             sample_prompt sample_parser sample_issue start_world)
        = Inl (ResponseParseFailed ''invalid character'')
   \<and> fst (structured_operation (cli_supervisor (decode_as [system_object, prose_object]))
             ''completion'' sample_prompt sample_parser sample_issue start_world)
        = Inl (ResponseParseFailed ''invalid character'')
   \<and> fst (structured_operation (cli_supervisor (decode_as [system_object, decision_object]))
             ''completion'' sample_prompt sample_parser sample_issue start_world)
        = Inr True
   \<and> ''done!'' \<noteq> [] \<and> (4::int) < int (length ''done!'')
   \<and> fst (SummarizeAgentOutput (cli_supervisor decode_fails) sample_issue ''done!'' 4 start_world)
        = Inl (SummarizationFailed (ParseFailed ''unexpected end of JSON input'' ''[...]''))
   \<and> fst (SummarizeAgentOutput (cli_supervisor (decode_as [prose_object])) sample_issue ''done!'' 4
             start_world)
        = Inr ''Looks complete to me.''
   \<and> fst (CallAI (cli_supervisor decode_fails) ''What is 2+2?'' ''test'' '''' 0 start_world)
        = Inl (AICallFailed (ParseFailed ''unexpected end of JSON input'' ''[...]''))"
  using
    parse_failure_is_hard_error[OF refl refl refl refl,
      where p="\<lambda>calls. Invoke sample_provider sample_run decode_fails"
        and retriable=retry_every_error and refuse=breaker_closed and n=2
        and operation="''completion''" and buildPrompt=sample_prompt
        and parseResponse=sample_parser and issue=sample_issue and w=start_world
        and fullOutput="''done!''" and maxLength=4
        and run=sample_run and cli=sample_provider and params=sample_params
        and unmarshal=decode_fails]
    parse_failure_is_hard_error[OF refl refl refl refl,
      where p="\<lambda>calls. Invoke sample_provider sample_run (decode_as [bare_result_object])"
        and retriable=retry_every_error and refuse=breaker_closed and n=2
        and operation="''completion''" and buildPrompt=sample_prompt
        and parseResponse=sample_parser and issue=sample_issue and w=start_world
        and fullOutput="''done!''" and maxLength=4
        and run=sample_run and cli=sample_provider and params=sample_params
        and unmarshal="decode_as [system_object, assistant_object]"]
    parse_failure_is_hard_error[OF refl refl refl refl,
      where p="\<lambda>calls. Invoke sample_provider sample_run (decode_as [system_object, decision_object])"
        and retriable=retry_every_error and refuse=breaker_closed and n=2
        and operation="''completion''" and buildPrompt=sample_prompt
        and parseResponse=sample_parser and issue=sample_issue and w=start_world
        and fullOutput="''done!''" and maxLength=4
        and run=sample_run and cli=sample_provider and params=sample_params
        and unmarshal="decode_as [system_object, decision_object]"]
  by (simp add: cli_supervisor_def layered_supervisor_def retry_with_backoff_def
      guarded_attempt_def retry_every_error_def breaker_closed_def structured_operation_def
      provider_Invoke_def Invoke_def result_of_responses_def sample_run_def decode_fails_def
      decode_as_def system_object_def assistant_object_def bare_result_object_def
      prose_object_def decision_object_def no_usage_def sample_prompt_def sample_parser_def
      sample_issue_def start_world_def SummarizeAgentOutput_def CallAI_def logAIUsage_def
      Let_def eval_nat_numeral)

end
